theory Spec2Isabelle
  imports Main "HOL-Library.Sublist"
begin

section \<open>JavaScript values\<close>

text \<open>
  The values that flow through \<^verbatim>\<open>index.js\<close>: identifiers, query objects, option
  objects and decoded JSON bodies. Strings are byte lists (UTF-8). \<open>JNum\<close> is an integer
  that a number holds exactly (at most \<open>2^53\<close> in absolute value), printed in decimal;
  \<open>JFloat\<close> is any other number except NaN, given by the string that \<^verbatim>\<open>String\<close> prints
  for it. An object is the list of its own enumerable string-keyed data properties in
  insertion order; a well-formed object has distinct keys.
\<close>

datatype jsval =
    JUndefined
  | JNull
  | JBool bool
  | JNum int
  | JFloat string
  | JStr string
  | JArr "jsval list"
  | JObj "(string \<times> jsval) list"

type_synonym js_object = "(string \<times> jsval) list"

text \<open>The truthiness test of \<^verbatim>\<open>if (x)\<close>, \<^verbatim>\<open>!x\<close> and \<^verbatim>\<open>x || y\<close>.\<close>

fun truthy :: "jsval \<Rightarrow> bool" where
  "truthy JUndefined = False"
| "truthy JNull = False"
| "truthy (JBool b) = b"
| "truthy (JNum n) = (n \<noteq> 0)"
| "truthy (JFloat f) = True"
| "truthy (JStr s) = (s \<noteq> [])"
| "truthy (JArr xs) = True"
| "truthy (JObj kvs) = True"

fun typeof :: "jsval \<Rightarrow> string" where
  "typeof JUndefined = ''undefined''"
| "typeof JNull = ''object''"
| "typeof (JBool b) = ''boolean''"
| "typeof (JNum n) = ''number''"
| "typeof (JFloat f) = ''number''"
| "typeof (JStr s) = ''string''"
| "typeof (JArr xs) = ''object''"
| "typeof (JObj kvs) = ''object''"

text \<open>A default parameter \<^verbatim>\<open>(x = d)\<close> takes its default only when the argument is undefined.\<close>

definition default_param :: "jsval \<Rightarrow> jsval \<Rightarrow> jsval" where
  "default_param x d = (if x = JUndefined then d else x)"

subsection \<open>Numbers and values as strings\<close>

fun show_nat :: "nat \<Rightarrow> string" where
  "show_nat n =
     (if n < 10 then [''0123456789'' ! n]
      else show_nat (n div 10) @ [''0123456789'' ! (n mod 10)])"

declare show_nat.simps [simp del]

definition show_int :: "int \<Rightarrow> string" where
  "show_int i = (if i < 0 then CHR ''-'' # show_nat (nat (- i)) else show_nat (nat i))"

fun join_with :: "string \<Rightarrow> string list \<Rightarrow> string" where
  "join_with sep [] = []"
| "join_with sep [x] = x"
| "join_with sep (x # y # ys) = x @ sep @ join_with sep (y # ys)"

text \<open>
  \<^verbatim>\<open>String(v)\<close>, as string concatenation and \<^verbatim>\<open>encodeURIComponent\<close> apply it. A plain
  object prints through \<^verbatim>\<open>Object.prototype.toString\<close>; when it has an own property
  \<^verbatim>\<open>toString\<close> (never callable here) the conversion throws, which is \<open>None\<close>.
  An array joins its elements with commas, null and undefined elements printing as
  the empty string.
\<close>

fun ToString :: "jsval \<Rightarrow> string option"
  and ToString_elems :: "jsval list \<Rightarrow> string list option" where
  "ToString JUndefined = Some ''undefined''"
| "ToString JNull = Some ''null''"
| "ToString (JBool b) = Some (if b then ''true'' else ''false'')"
| "ToString (JNum n) = Some (show_int n)"
| "ToString (JFloat f) = Some f"
| "ToString (JStr s) = Some s"
| "ToString (JArr xs) = map_option (join_with '','') (ToString_elems xs)"
| "ToString (JObj kvs) =
     (if ''toString'' \<in> set (map fst kvs) then None else Some ''[object Object]'')"
| "ToString_elems [] = Some []"
| "ToString_elems (x # xs) =
     (case (if x = JUndefined \<or> x = JNull then Some [] else ToString x) of
        None \<Rightarrow> None
      | Some s \<Rightarrow> map_option ((#) s) (ToString_elems xs))"

subsection \<open>Percent-encoding\<close>

definition hex_digit :: "nat \<Rightarrow> char" where
  "hex_digit n = ''0123456789ABCDEF'' ! n"

definition percent_byte :: "char \<Rightarrow> string" where
  "percent_byte c = [CHR ''%'', hex_digit (of_char c div 16), hex_digit (of_char c mod 16)]"

definition is_alnum :: "char \<Rightarrow> bool" where
  "is_alnum c \<longleftrightarrow>
     c \<in> set ''ABCDEFGHIJKLMNOPQRSTUVWXYZabcdefghijklmnopqrstuvwxyz0123456789''"

text \<open>
  \<^verbatim>\<open>encodeURIComponent\<close> keeps the letters, the digits and \<^verbatim>\<open>- _ . ! ~ * ' ( )\<close>, and
  writes every other byte of the UTF-8 form as \<^verbatim>\<open>%XX\<close>.
\<close>

definition uri_unescaped :: "char \<Rightarrow> bool" where
  "uri_unescaped c \<longleftrightarrow> is_alnum c \<or> c \<in> set ''-_.!~*()'' \<or> c = CHR 0x27"

definition encodeURIComponent_str :: "string \<Rightarrow> string" where
  "encodeURIComponent_str s =
     concat (map (\<lambda>c. if uri_unescaped c then [c] else percent_byte c) s)"

definition encodeURIComponent :: "jsval \<Rightarrow> string option" where
  "encodeURIComponent v = map_option encodeURIComponent_str (ToString v)"

text \<open>The encoder of the query stringifier keeps the letters, the digits and \<^verbatim>\<open>- . _ ~\<close>.\<close>

definition qs_encode :: "string \<Rightarrow> string" where
  "qs_encode s =
     concat (map (\<lambda>c. if is_alnum c \<or> c \<in> set ''-._~'' then [c] else percent_byte c) s)"

section \<open>Objects\<close>

text \<open>Writing a property: an existing key keeps its place, a new key goes last.\<close>

fun obj_put :: "js_object \<Rightarrow> string \<Rightarrow> jsval \<Rightarrow> js_object" where
  "obj_put [] k v = [(k, v)]"
| "obj_put ((k', v') # kvs) k v =
     (if k' = k then (k, v) # kvs else (k', v') # obj_put kvs k v)"

text \<open>Writing a list of entries one after the other, as every copying loop does.\<close>

definition put_all :: "js_object \<Rightarrow> (string \<times> jsval) list \<Rightarrow> js_object" where
  "put_all obj es = foldl (\<lambda>acc (k, v). obj_put acc k v) obj es"

text \<open>\<^verbatim>\<open>Object.fromEntries\<close>: the entries are written into a new object.\<close>

definition fromEntries :: "(string \<times> jsval) list \<Rightarrow> js_object" where
  "fromEntries es = put_all [] es"

definition nat_of_digits :: "string \<Rightarrow> nat" where
  "nat_of_digits s = foldl (\<lambda>n c. 10 * n + (of_char c - 48)) 0 s"

definition is_digit :: "char \<Rightarrow> bool" where
  "is_digit c \<longleftrightarrow> c \<in> set ''0123456789''"

text \<open>
  An array index is the canonical decimal form of an integer below \<open>2^32 - 1\<close>. The own
  keys of an object are listed with the array indices first, in ascending order, and
  then the other keys in insertion order.
\<close>

definition is_array_index :: "string \<Rightarrow> bool" where
  "is_array_index k \<longleftrightarrow>
     k \<noteq> [] \<and> list_all is_digit k \<and> (k = ''0'' \<or> hd k \<noteq> CHR ''0'')
     \<and> nat_of_digits k < 4294967295"

definition own_entries :: "js_object \<Rightarrow> (string \<times> jsval) list" where
  "own_entries kvs =
     sort_key (\<lambda>kv. nat_of_digits (fst kv)) (filter (\<lambda>kv. is_array_index (fst kv)) kvs)
     @ filter (\<lambda>kv. \<not> is_array_index (fst kv)) kvs"

text \<open>
  The own enumerable string-keyed properties of a value that is neither null nor
  undefined, as object spread and \<^verbatim>\<open>Object.entries\<close> read them: the properties of an
  object, the elements of an array, the characters of a string (one byte each, so
  exact on ASCII strings), nothing for a number or a boolean.
\<close>

fun enumerable_entries :: "jsval \<Rightarrow> (string \<times> jsval) list" where
  "enumerable_entries (JObj kvs) = own_entries kvs"
| "enumerable_entries (JArr xs) = zip (map show_nat [0..<length xs]) xs"
| "enumerable_entries (JStr s) = zip (map show_nat [0..<length s]) (map (\<lambda>c. JStr [c]) s)"
| "enumerable_entries v = []"

datatype literal_part = Prop string jsval | Spread jsval

text \<open>
  An object literal \<^verbatim>\<open>{k: v, ...x}\<close> is evaluated part by part, left to right; spreading
  null or undefined adds nothing.
\<close>

fun literal_step :: "js_object \<Rightarrow> literal_part \<Rightarrow> js_object" where
  "literal_step obj (Prop k v) = obj_put obj k v"
| "literal_step obj (Spread x) = put_all obj (enumerable_entries x)"

definition obj_literal :: "literal_part list \<Rightarrow> js_object" where
  "obj_literal parts = foldl literal_step [] parts"

text \<open>
  Reading a property that no built-in prototype provides (the source reads \<^verbatim>\<open>id\<close>,
  \<^verbatim>\<open>headers\<close> and \<^verbatim>\<open>msg\<close>) of a value that is neither null nor undefined.
\<close>

fun get_prop :: "jsval \<Rightarrow> string \<Rightarrow> jsval" where
  "get_prop (JObj kvs) k = (case map_of kvs k of None \<Rightarrow> JUndefined | Some v \<Rightarrow> v)"
| "get_prop v k = JUndefined"

section \<open>The query stringifier\<close>

text \<open>
  \<^verbatim>\<open>stringifyQuery(obj, {allowDots: true})\<close> of the \<^verbatim>\<open>qs\<close> package on these values: a
  primitive gives one \<^verbatim>\<open>key=value\<close> pair, both sides encoded; null is written as the
  empty string; undefined is left out; an object is flattened with a dot between the
  prefix and the key, an array with the index in brackets.
\<close>

function stringify_value :: "jsval \<Rightarrow> string \<Rightarrow> string list" where
  "stringify_value JUndefined pre = []"
| "stringify_value JNull pre = [qs_encode pre @ ''='' @ qs_encode []]"
| "stringify_value (JBool b) pre =
     [qs_encode pre @ ''='' @ qs_encode (if b then ''true'' else ''false'')]"
| "stringify_value (JNum n) pre = [qs_encode pre @ ''='' @ qs_encode (show_int n)]"
| "stringify_value (JFloat f) pre = [qs_encode pre @ ''='' @ qs_encode f]"
| "stringify_value (JStr s) pre = [qs_encode pre @ ''='' @ qs_encode s]"
| "stringify_value (JArr xs) pre =
     concat (map (\<lambda>kv. stringify_value (snd kv) (pre @ ''['' @ fst kv @ '']''))
       (enumerable_entries (JArr xs)))"
| "stringify_value (JObj kvs) pre =
     concat (map (\<lambda>kv. stringify_value (snd kv) (pre @ ''.'' @ fst kv))
       (own_entries kvs))"
  by pat_completeness auto
termination
proof (relation "measure (\<lambda>(v, p). size v)")
  show "wf (measure (\<lambda>(v, p). size v))" by simp
next
  fix xs :: "jsval list" and pre :: string and kv :: "string \<times> jsval"
  assume "kv \<in> set (enumerable_entries (JArr xs))"
  then have "(fst kv, snd kv) \<in> set (zip (map show_nat [0..<length xs]) xs)"
    by simp
  then have "snd kv \<in> set xs"
    by (rule set_zip_rightD)
  then have "size (snd kv) < Suc (size_list size xs)"
    by (induction xs) auto
  then show "((snd kv, pre @ ''['' @ fst kv @ '']''), (JArr xs, pre))
      \<in> measure (\<lambda>(v, p). size v)"
    by simp
next
  fix kvs :: js_object and pre :: string and kv :: "string \<times> jsval"
  assume "kv \<in> set (own_entries kvs)"
  then have "kv \<in> set kvs"
    by (auto simp: own_entries_def)
  then have "size (snd kv) < Suc (size_list (size_prod (\<lambda>x. 0) size) kvs)"
    by (induction kvs) auto
  then show "((snd kv, pre @ ''.'' @ fst kv), (JObj kvs, pre))
      \<in> measure (\<lambda>(v, p). size v)"
    by simp
qed

definition stringifyQuery :: "js_object \<Rightarrow> string" where
  "stringifyQuery obj =
     join_with ''&'' (concat (map (\<lambda>kv. stringify_value (snd kv) (fst kv)) (own_entries obj)))"

section \<open>Responses, errors and the platform\<close>

text \<open>
  A parsed URL, as far as the client reads it: \<^verbatim>\<open>url.href\<close> and the decoded entries of
  \<^verbatim>\<open>url.searchParams\<close>.
\<close>

record url =
  href :: string
  searchParams :: "(string \<times> string) list"

text \<open>
  A response handle: \<open>res_headers\<close> is \<^verbatim>\<open>res.headers.get\<close> (\<open>None\<close> for null) and
  \<open>res_json\<close> the outcome of \<^verbatim>\<open>res.json()\<close>, \<open>Inl\<close> with the name and the message of the
  error it rejects with when the body is not JSON.
\<close>

record response =
  res_status :: nat
  res_headers :: "string \<Rightarrow> string option"
  res_json :: "(string \<times> string) + jsval"

record js_error =
  err_name :: string
  err_message :: string
  err_response :: "response option"
  err_body :: "jsval option"

definition TypeError :: "string \<Rightarrow> js_error" where
  "TypeError msg =
     \<lparr>err_name = ''TypeError'', err_message = msg, err_response = None, err_body = None\<rparr>"

definition thrown :: "string \<times> string \<Rightarrow> js_error" where
  "thrown nm =
     \<lparr>err_name = fst nm, err_message = snd nm, err_response = None, err_body = None\<rparr>"

datatype ky_outcome = Resolved response | Rejected js_error

text \<open>
  What the module imports and the runtime provides, taken as parameters:
  \<open>new_URL input base\<close> is \<^verbatim>\<open>new URL(input, base)\<close> (\<open>Inl\<close> the error when it throws),
  \<open>parseContentType\<close> gives the media type of a header value (\<open>None\<close> when it throws), and
  \<open>ky_get url cfg\<close> is the settled outcome of \<^verbatim>\<open>ky.get(url, cfg)\<close>.
\<close>

record platform =
  new_URL :: "string \<Rightarrow> string option \<Rightarrow> js_error + url"
  parseContentType :: "string \<Rightarrow> string option"
  ky_get :: "string \<Rightarrow> jsval \<Rightarrow> ky_outcome"

text \<open>\<^verbatim>\<open>Object.entries\<close> throws on null and undefined.\<close>

definition Object_entries :: "jsval \<Rightarrow> js_error + (string \<times> jsval) list" where
  "Object_entries v =
     (if v = JUndefined \<or> v = JNull
      then Inl (TypeError ''Cannot convert undefined or null to object'')
      else Inr (enumerable_entries v))"

section \<open>The returned body and its symbol-keyed properties\<close>

datatype symbol = RESPONSE | HEADERS | SERVER_TIMING | CACHE

datatype attached =
    AResponse response
  | AHeaders "string \<Rightarrow> string option"
  | AValue jsval

record descriptor =
  d_value :: attached
  d_writable :: bool
  d_enumerable :: bool
  d_configurable :: bool

text \<open>
  The value \<^verbatim>\<open>request\<close> returns: the decoded body together with the symbol-keyed
  properties defined on it.
\<close>

record envelope =
  env_json :: jsval
  env_symbols :: "(symbol \<times> descriptor) list"

fun is_object :: "jsval \<Rightarrow> bool" where
  "is_object (JObj kvs) = True"
| "is_object (JArr xs) = True"
| "is_object v = False"

text \<open>
  \<^verbatim>\<open>Object.defineProperty(obj, key, {value: v})\<close>: a type error on a primitive; a new
  property is neither writable, enumerable nor configurable; such a property can only
  be defined again with the value it has.
\<close>

definition defineProperty :: "envelope \<Rightarrow> symbol \<Rightarrow> attached \<Rightarrow> js_error + envelope" where
  "defineProperty obj key v =
     (if \<not> is_object (env_json obj)
      then Inl (TypeError ''Object.defineProperty called on non-object'')
      else (case map_of (env_symbols obj) key of
          None \<Rightarrow> Inr (obj\<lparr>env_symbols := env_symbols obj @
            [(key, \<lparr>d_value = v, d_writable = False, d_enumerable = False,
                    d_configurable = False\<rparr>)]\<rparr>)
        | Some d \<Rightarrow>
            if d_value d = v then Inr obj
            else Inl (TypeError ''Cannot redefine property'')))"

definition get_symbol :: "envelope \<Rightarrow> symbol \<Rightarrow> attached option" where
  "get_symbol obj key = map_option d_value (map_of (env_symbols obj) key)"

datatype pkey = KStr string | KSym symbol

text \<open>
  The own enumerable properties of the returned value, string keys first: what
  object spread and \<^verbatim>\<open>Object.assign\<close> copy. \<^verbatim>\<open>Object.keys\<close>, \<^verbatim>\<open>for-in\<close> and
  \<^verbatim>\<open>JSON.stringify\<close> see the string-keyed ones among them.
\<close>

definition enumerable_own :: "envelope \<Rightarrow> (pkey \<times> attached) list" where
  "enumerable_own obj =
     map (\<lambda>kv. (KStr (fst kv), AValue (snd kv))) (enumerable_entries (env_json obj))
     @ map (\<lambda>sd. (KSym (fst sd), d_value (snd sd)))
         (filter (\<lambda>sd. d_enumerable (snd sd)) (env_symbols obj))"

fun string_keyed :: "(pkey \<times> attached) list \<Rightarrow> (string \<times> attached) list" where
  "string_keyed [] = []"
| "string_keyed ((KStr k, v) # ps) = (k, v) # string_keyed ps"
| "string_keyed ((KSym s, v) # ps) = string_keyed ps"

definition Object_keys :: "envelope \<Rightarrow> string list" where
  "Object_keys obj = map fst (string_keyed (enumerable_own obj))"

text \<open>\<^verbatim>\<open>h || null\<close> for a header value \<open>h\<close>.\<close>

definition or_null :: "string option \<Rightarrow> jsval" where
  "or_null h = (case h of None \<Rightarrow> JNull | Some s \<Rightarrow> if s = [] then JNull else JStr s)"

section \<open>The request primitive\<close>

type_synonym world = "(string \<times> jsval) list"

type_synonym ('a, 'w) promise = "'w \<Rightarrow> (js_error + 'a) \<times> 'w"

type_synonym ('a, 'w) requester = "string \<Rightarrow> jsval \<Rightarrow> jsval \<Rightarrow> ('a, 'w) promise"

text \<open>
  The state is the list of calls made to \<^verbatim>\<open>ky.get\<close> so far, each with its URL and its
  configuration object. An asynchronous function is a state transformer that returns
  the rejection (\<open>Inl\<close>) or the fulfilment value (\<open>Inr\<close>); a \<^verbatim>\<open>throw\<close> in its body is a
  rejection. The call of \<^verbatim>\<open>debug\<close> in line 63 only logs and is left out. Messages of
  errors that the engine raises are those of V8.
\<close>

definition reject :: "js_error \<Rightarrow> ('a, 'w) promise" where
  "reject e w = (Inl e, w)"

text \<open>
  The configuration object of lines 45 to 58: the three defaults, then the spread
  options, then \<^verbatim>\<open>headers\<close>, itself two defaults followed by the spread option headers.
\<close>

definition build_cfg :: "jsval \<Rightarrow> url \<Rightarrow> jsval \<Rightarrow> jsval \<Rightarrow> js_error + jsval" where
  "build_cfg userAgent u query opt =
     (case Object_entries query of
        Inl e \<Rightarrow> Inl e
      | Inr qes \<Rightarrow>
          if opt = JUndefined \<or> opt = JNull
          then Inl (TypeError ''Cannot read properties of null'')
          else Inr (JObj (obj_literal
            [Prop ''mode'' (JStr ''cors''),
             Prop ''redirect'' (JStr ''follow''),
             Prop ''searchParams'' (JStr (stringifyQuery (fromEntries
               (map (\<lambda>kv. (fst kv, JStr (snd kv))) (searchParams u) @ qes)))),
             Spread opt,
             Prop ''headers'' (JObj (obj_literal
               [Prop ''Accept'' (JStr ''application/json''),
                Prop ''User-Agent'' userAgent,
                Spread (if truthy (get_prop opt ''headers'')
                        then get_prop opt ''headers'' else JObj [])]))])))"

text \<open>
  The separator written in line 71, byte for byte: a space, the eight bytes
  \<^verbatim>\<open>C3 A2 E2 82 AC E2 80 9C\<close>, a space.
\<close>

definition msg_separator :: string where
  "msg_separator =
     '' '' @ [CHR 0xC3, CHR 0xA2, CHR 0xE2, CHR 0x82, CHR 0xAC, CHR 0xE2, CHR 0x80, CHR 0x9C]
     @ '' ''"

text \<open>
  The \<^verbatim>\<open>catch\<close> block of lines 64 to 76, up to the final \<^verbatim>\<open>throw err\<close>: whatever throws
  inside the inner \<^verbatim>\<open>try\<close> leaves the error as it is at that point.
\<close>

definition enrich :: "platform \<Rightarrow> js_error \<Rightarrow> js_error" where
  "enrich P err =
     (case err_response err of
        None \<Rightarrow> err
      | Some r \<Rightarrow>
          (case res_headers r ''content-type'' of
             None \<Rightarrow> err
           | Some cType \<Rightarrow>
               if cType = [] then err
               else (case parseContentType P cType of
                   None \<Rightarrow> err
                 | Some ty \<Rightarrow>
                     if ty \<noteq> ''application/json'' then err
                     else (case res_json r of
                         Inl m \<Rightarrow> err
                       | Inr body \<Rightarrow>
                           let err1 = err\<lparr>err_body := Some body\<rparr> in
                           if body = JNull \<or> body = JUndefined then err1
                           else if truthy (get_prop body ''msg'')
                           then (case ToString (get_prop body ''msg'') of
                               None \<Rightarrow> err1
                             | Some s \<Rightarrow>
                                 err1\<lparr>err_message := err_message err1 @ msg_separator @ s\<rparr>)
                           else err1))))"

text \<open>Lines 78 to 87: the four properties are defined on the decoded body in turn.\<close>

definition attach_metadata :: "response \<Rightarrow> jsval \<Rightarrow> js_error + envelope" where
  "attach_metadata res body =
     (case defineProperty \<lparr>env_json = body, env_symbols = []\<rparr> RESPONSE (AResponse res) of
        Inl e \<Rightarrow> Inl e
      | Inr b1 \<Rightarrow>
     (case defineProperty b1 HEADERS (AHeaders (res_headers res)) of
        Inl e \<Rightarrow> Inl e
      | Inr b2 \<Rightarrow>
     (case defineProperty b2 SERVER_TIMING
             (AValue (or_null (res_headers res ''Server-Timing''))) of
        Inl e \<Rightarrow> Inl e
      | Inr b3 \<Rightarrow>
          defineProperty b3 CACHE (AValue (or_null (res_headers res ''X-Cache''))))))"

definition request ::
  "platform \<Rightarrow> string \<Rightarrow> jsval \<Rightarrow> (envelope, world) requester" where
  "request P endpoint userAgent path query0 opt0 w =
     (let query = default_param query0 (JObj []);
          opt = default_param opt0 (JObj [])
      in case new_URL P path (Some endpoint) of
           Inl e \<Rightarrow> (Inl e, w)
         | Inr u \<Rightarrow>
             (case build_cfg userAgent u query opt of
                Inl e \<Rightarrow> (Inl e, w)
              | Inr cfg \<Rightarrow>
                  (case ky_get P (href u) cfg of
                     Rejected err \<Rightarrow> (Inl (enrich P err), w @ [(href u, cfg)])
                   | Resolved res \<Rightarrow>
                       (case res_json res of
                          Inl m \<Rightarrow> (Inl (thrown m), w @ [(href u, cfg)])
                        | Inr body \<Rightarrow> (attach_metadata res body, w @ [(href u, cfg)])))))"

section \<open>The endpoint operations\<close>

text \<open>
  Each operation is written over the \<^verbatim>\<open>request\<close> it closes over. A call
  \<^verbatim>\<open>request(path, query)\<close> leaves the third argument undefined.
\<close>

definition with_encoded :: "jsval \<Rightarrow> (string \<Rightarrow> ('a, 'w) promise) \<Rightarrow> ('a, 'w) promise" where
  "with_encoded v k =
     (case encodeURIComponent v of
        None \<Rightarrow> reject (TypeError ''Cannot convert object to primitive value'')
      | Some s \<Rightarrow> k s)"

definition locations :: "('a, 'w) requester \<Rightarrow> jsval \<Rightarrow> jsval \<Rightarrow> ('a, 'w) promise" where
  "locations req query opt0 =
     (let opt = default_param opt0 (JObj [])
      in req ''/locations'' (JObj (obj_literal [Prop ''query'' query, Spread opt])) JUndefined)"

definition nearby :: "('a, 'w) requester \<Rightarrow> jsval \<Rightarrow> jsval \<Rightarrow> ('a, 'w) promise" where
  "nearby req loc opt0 =
     (let opt = default_param opt0 (JObj [])
      in req ''/stops/nearby'' (JObj (obj_literal [Spread loc, Spread opt])) JUndefined)"

definition stations :: "('a, 'w) requester \<Rightarrow> jsval \<Rightarrow> jsval \<Rightarrow> ('a, 'w) promise" where
  "stations req query opt0 =
     (let opt = default_param opt0 (JObj [])
      in req ''/stations'' (JObj (obj_literal [Spread opt, Prop ''query'' query])) JUndefined)"

definition reachableFrom :: "('a, 'w) requester \<Rightarrow> jsval \<Rightarrow> jsval \<Rightarrow> ('a, 'w) promise" where
  "reachableFrom req loc opt0 =
     (let opt = default_param opt0 (JObj [])
      in req ''/stops/reachable-from'' (JObj (obj_literal [Spread loc, Spread opt])) JUndefined)"

definition stop :: "('a, 'w) requester \<Rightarrow> jsval \<Rightarrow> jsval \<Rightarrow> ('a, 'w) promise" where
  "stop req ident opt0 =
     (let opt = default_param opt0 (JObj [])
      in if \<not> truthy ident then reject (TypeError ''invalid id'')
         else with_encoded ident (\<lambda>e. req (''/stops/'' @ e) opt JUndefined))"

definition stationBoard ::
  "string \<Rightarrow> ('a, 'w) requester \<Rightarrow> jsval \<Rightarrow> jsval \<Rightarrow> ('a, 'w) promise" where
  "stationBoard type req stop0 opt0 =
     (let opt = default_param opt0 (JObj [])
      in if \<not> truthy stop0 then reject (TypeError ''invalid stop'')
         else if truthy (get_prop stop0 ''id'')
         then with_encoded (get_prop stop0 ''id'')
                (\<lambda>e. req (''/stops/'' @ e @ ''/departures'') opt JUndefined)
         else if typeof stop0 \<noteq> ''string'' then reject (TypeError ''invalid stop'')
         else with_encoded stop0
                (\<lambda>e. req (''/stops/'' @ e @ ''/departures'') opt JUndefined))"

definition departures :: "('a, 'w) requester \<Rightarrow> jsval \<Rightarrow> jsval \<Rightarrow> ('a, 'w) promise" where
  "departures = stationBoard ''departures''"

definition arrivals :: "('a, 'w) requester \<Rightarrow> jsval \<Rightarrow> jsval \<Rightarrow> ('a, 'w) promise" where
  "arrivals = stationBoard ''arrivals''"

definition journeys ::
  "('a, 'w) requester \<Rightarrow> jsval \<Rightarrow> jsval \<Rightarrow> jsval \<Rightarrow> ('a, 'w) promise" where
  "journeys req from to opt0 =
     (let opt = default_param opt0 (JObj [])
      in req ''/journeys''
           (JObj (obj_literal [Prop ''from'' from, Prop ''to'' to, Spread opt])) JUndefined)"

definition refreshJourney :: "('a, 'w) requester \<Rightarrow> jsval \<Rightarrow> jsval \<Rightarrow> ('a, 'w) promise" where
  "refreshJourney req ref opt0 =
     (let opt = default_param opt0 (JObj [])
      in if \<not> truthy ref then reject (TypeError ''invalid ref'')
         else with_encoded ref (\<lambda>e. req (''/journeys/'' @ e) opt JUndefined))"

definition trip ::
  "('a, 'w) requester \<Rightarrow> jsval \<Rightarrow> jsval \<Rightarrow> jsval \<Rightarrow> ('a, 'w) promise" where
  "trip req ident lineName opt0 =
     (let opt = default_param opt0 (JObj [])
      in if \<not> truthy ident then reject (TypeError ''invalid id'')
         else with_encoded ident (\<lambda>e. req (''/trips/'' @ e)
                (JObj (obj_literal [Prop ''lineName'' lineName, Spread opt])) JUndefined))"

definition radar :: "('a, 'w) requester \<Rightarrow> jsval \<Rightarrow> jsval \<Rightarrow> ('a, 'w) promise" where
  "radar req bbox opt0 =
     (let opt = default_param opt0 (JObj [])
      in req ''/radar'' (JObj (obj_literal [Spread bbox, Spread opt])) JUndefined)"

section \<open>The client\<close>

record ('a, 'w) client =
  client_locations :: "jsval \<Rightarrow> jsval \<Rightarrow> ('a, 'w) promise"
  client_nearby :: "jsval \<Rightarrow> jsval \<Rightarrow> ('a, 'w) promise"
  client_stations :: "jsval \<Rightarrow> jsval \<Rightarrow> ('a, 'w) promise"
  client_reachableFrom :: "jsval \<Rightarrow> jsval \<Rightarrow> ('a, 'w) promise"
  client_stop :: "jsval \<Rightarrow> jsval \<Rightarrow> ('a, 'w) promise"
  client_departures :: "jsval \<Rightarrow> jsval \<Rightarrow> ('a, 'w) promise"
  client_arrivals :: "jsval \<Rightarrow> jsval \<Rightarrow> ('a, 'w) promise"
  client_journeys :: "jsval \<Rightarrow> jsval \<Rightarrow> jsval \<Rightarrow> ('a, 'w) promise"
  client_refreshJourney :: "jsval \<Rightarrow> jsval \<Rightarrow> ('a, 'w) promise"
  client_trip :: "jsval \<Rightarrow> jsval \<Rightarrow> jsval \<Rightarrow> ('a, 'w) promise"
  client_radar :: "jsval \<Rightarrow> jsval \<Rightarrow> ('a, 'w) promise"

text \<open>The object returned in lines 209 to 220, for the request function in scope.\<close>

definition client_of :: "('a, 'w) requester \<Rightarrow> ('a, 'w) client" where
  "client_of req =
     \<lparr>client_locations = locations req,
      client_nearby = nearby req,
      client_stations = stations req,
      client_reachableFrom = reachableFrom req,
      client_stop = stop req,
      client_departures = departures req,
      client_arrivals = arrivals req,
      client_journeys = journeys req,
      client_refreshJourney = refreshJourney req,
      client_trip = trip req,
      client_radar = radar req\<rparr>"

text \<open>
  \<^verbatim>\<open>createClient(endpoint, opt)\<close>: the endpoint is parsed for validation only, and
  \<^verbatim>\<open>userAgent\<close> is destructured from the object literal of lines 32 to 34.
\<close>

definition createClient ::
  "platform \<Rightarrow> string \<Rightarrow> jsval \<Rightarrow> js_error + (envelope, world) client" where
  "createClient P endpoint opt =
     (case new_URL P endpoint None of
        Inl e \<Rightarrow> Inl e
      | Inr u \<Rightarrow>
          let userAgent =
                get_prop (JObj (obj_literal [Prop ''userAgent'' (JStr ''hafas-rest-api-client'')]))
                  ''userAgent''
          in Inr (client_of (request P endpoint userAgent)))"

text \<open>A call of one of the eleven methods of a client, with its arguments.\<close>

datatype api_call =
    Locations jsval jsval
  | Nearby jsval jsval
  | Stations jsval jsval
  | ReachableFrom jsval jsval
  | Stop jsval jsval
  | Departures jsval jsval
  | Arrivals jsval jsval
  | Journeys jsval jsval jsval
  | RefreshJourney jsval jsval
  | Trip jsval jsval jsval
  | Radar jsval jsval

fun invoke :: "('a, 'w) client \<Rightarrow> api_call \<Rightarrow> ('a, 'w) promise" where
  "invoke c (Locations q opt) = client_locations c q opt"
| "invoke c (Nearby loc opt) = client_nearby c loc opt"
| "invoke c (Stations q opt) = client_stations c q opt"
| "invoke c (ReachableFrom loc opt) = client_reachableFrom c loc opt"
| "invoke c (Stop ident opt) = client_stop c ident opt"
| "invoke c (Departures s opt) = client_departures c s opt"
| "invoke c (Arrivals s opt) = client_arrivals c s opt"
| "invoke c (Journeys from to opt) = client_journeys c from to opt"
| "invoke c (RefreshJourney ref opt) = client_refreshJourney c ref opt"
| "invoke c (Trip ident lineName opt) = client_trip c ident lineName opt"
| "invoke c (Radar bbox opt) = client_radar c bbox opt"

text \<open>
  A request function that only records the arguments it is called with; a client built
  over it shows which calls of \<^verbatim>\<open>request\<close> an operation makes.
\<close>

definition recording :: "(unit, (string \<times> jsval \<times> jsval) list) requester" where
  "recording path query opt w = (Inr (), w @ [(path, query, opt)])"

section \<open>A test platform\<close>

text \<open>
  A small platform for concrete runs: the endpoint \<^verbatim>\<open>https://example.test\<close>, a stop that
  answers with a JSON object and the header \<^verbatim>\<open>X-Cache: HIT\<close>, and a status 500 with
  the JSON body \<^verbatim>\<open>{"msg":"not found"}\<close> everywhere else.
\<close>

definition example_URL :: "string \<Rightarrow> string option \<Rightarrow> js_error + url" where
  "example_URL input base =
     (case base of
        None \<Rightarrow>
          if input = ''https://example.test''
          then Inr \<lparr>href = ''https://example.test/'', searchParams = []\<rparr>
          else Inl (TypeError ''Invalid URL'')
      | Some b \<Rightarrow>
          if b \<noteq> ''https://example.test'' then Inl (TypeError ''Invalid URL'')
          else if input = ''/locations?results=1''
          then Inr \<lparr>href = b @ input, searchParams = [(''results'', ''1'')]\<rparr>
          else Inr \<lparr>href = b @ input, searchParams = []\<rparr>)"

definition example_body :: jsval where
  "example_body = JObj [(''id'', JStr ''900000003201''), (''name'', JStr ''X'')]"

definition example_ok :: response where
  "example_ok =
     \<lparr>res_status = 200,
      res_headers = (\<lambda>h. if h = ''X-Cache'' then Some ''HIT''
                          else if h = ''content-type'' then Some ''application/json''
                          else None),
      res_json = Inr example_body\<rparr>"

definition example_failure :: response where
  "example_failure =
     \<lparr>res_status = 500,
      res_headers = (\<lambda>h. if h = ''content-type'' then Some ''application/json'' else None),
      res_json = Inr (JObj [(''msg'', JStr ''not found'')])\<rparr>"

definition example_HTTPError :: js_error where
  "example_HTTPError =
     \<lparr>err_name = ''HTTPError'',
      err_message = ''Request failed with status code 500 Internal Server Error'',
      err_response = Some example_failure,
      err_body = None\<rparr>"

definition example_platform :: platform where
  "example_platform =
     \<lparr>new_URL = example_URL,
      parseContentType = (\<lambda>h. if h = ''application/json'' \<or> h = ''text/html''
                                then Some h else None),
      ky_get = (\<lambda>u cfg. if u = ''https://example.test/stops/900000003201''
                         then Resolved example_ok else Rejected example_HTTPError)\<rparr>"

text \<open>The same platform with \<^verbatim>\<open>ky.get\<close> always rejecting, or always resolving.\<close>

definition rejecting_with :: "js_error \<Rightarrow> string \<Rightarrow> jsval \<Rightarrow> ky_outcome" where
  "rejecting_with err u cfg = Rejected err"

definition resolving_with :: "response \<Rightarrow> string \<Rightarrow> jsval \<Rightarrow> ky_outcome" where
  "resolving_with res u cfg = Resolved res"

definition example_empty_msg :: response where
  "example_empty_msg = example_failure\<lparr>res_json := Inr (JObj [(''msg'', JStr '''')])\<rparr>"

definition example_null_body :: response where
  "example_null_body = example_ok\<lparr>res_json := Inr JNull\<rparr>"

section \<open>Notions used in the statements\<close>

text \<open>A path of the form \<^verbatim>\<open>/stops/{id}/arrivals\<close>.\<close>

definition is_arrivals_path :: "string \<Rightarrow> bool" where
  "is_arrivals_path p \<longleftrightarrow> prefix ''/stops/'' p \<and> suffix ''/arrivals'' (drop 7 p)"

text \<open>
  The query string in which every entry of the URL and then every entry of the query
  mapping is encoded on its own, in that order, entries with the same key included.
\<close>

definition concatenated_query :: "url \<Rightarrow> (string \<times> jsval) list \<Rightarrow> string" where
  "concatenated_query u qes =
     join_with ''&'' (concat (map (\<lambda>kv. stringify_value (snd kv) (fst kv))
       (map (\<lambda>kv. (fst kv, JStr (snd kv))) (searchParams u) @ qes)))"

text \<open>A space, an en dash (U+2013, the bytes \<^verbatim>\<open>E2 80 93\<close>) and a space.\<close>

definition en_dash_separator :: string where
  "en_dash_separator = '' '' @ [CHR 0xE2, CHR 0x80, CHR 0x93] @ '' ''"

section \<open>Facts about objects\<close>

lemma map_of_obj_put: "map_of (obj_put obj k v) = (map_of obj)(k \<mapsto> v)"
  by (induction obj) (auto simp: fun_eq_iff)

lemma keys_obj_put:
  "map fst (obj_put obj k v) = (if k \<in> set (map fst obj) then map fst obj else map fst obj @ [k])"
  by (induction obj) (auto simp: rev_image_eqI)

lemma distinct_obj_put: "distinct (map fst obj) \<Longrightarrow> distinct (map fst (obj_put obj k v))"
  by (simp add: keys_obj_put)

lemma put_all_Nil [simp]: "put_all obj [] = obj"
  by (simp add: put_all_def)

lemma put_all_snoc [simp]: "put_all obj (es @ [(k, v)]) = obj_put (put_all obj es) k v"
  by (simp add: put_all_def)

lemma put_all_Cons: "put_all obj ((k, v) # es) = put_all (obj_put obj k v) es"
  by (simp add: put_all_def)

lemma map_of_put_all: "map_of (put_all obj es) = map_of obj ++ map_of (rev es)"
proof (induction es rule: rev_induct)
  case Nil
  show ?case by simp
next
  case (snoc e es)
  obtain k v where e: "e = (k, v)" by (cases e)
  show ?case
    unfolding e by (rule ext) (simp add: snoc.IH map_of_obj_put map_add_def)
qed

lemma distinct_put_all: "distinct (map fst obj) \<Longrightarrow> distinct (map fst (put_all obj es))"
proof (induction es rule: rev_induct)
  case Nil
  then show ?case by simp
next
  case (snoc e es)
  obtain k v where e: "e = (k, v)" by (cases e)
  show ?case
    unfolding e using snoc by (simp add: distinct_obj_put)
qed

lemma set_keys_put_all: "set (map fst (put_all obj es)) = set (map fst obj) \<union> set (map fst es)"
proof (induction es rule: rev_induct)
  case Nil
  then show ?case by simp
next
  case (snoc e es)
  obtain k v where e: "e = (k, v)" by (cases e)
  show ?case
    unfolding e using snoc by (auto simp: keys_obj_put)
qed

lemma keys_put_all_empty: "map fst (put_all [] es) = rev (remdups (rev (map fst es)))"
proof (induction es rule: rev_induct)
  case Nil
  then show ?case by simp
next
  case (snoc e es)
  obtain k v where e: "e = (k, v)" by (cases e)
  have "set (map fst (put_all [] es)) = set (map fst es)"
    using set_keys_put_all [of "[]" es] by simp
  then show ?case
    unfolding e using snoc by (simp add: keys_obj_put)
qed

lemma put_all_distinct_id:
  "distinct (map fst es) \<Longrightarrow> put_all [] es = es"
proof (induction es rule: rev_induct)
  case Nil
  then show ?case by simp
next
  case (snoc e es)
  obtain k v where e: "e = (k, v)" by (cases e)
  have put_new: "\<And>obj. k \<notin> set (map fst obj) \<Longrightarrow> obj_put obj k v = obj @ [(k, v)]"
    subgoal for obj by (induction obj) auto
    done
  show ?case
    unfolding e using snoc by (simp add: e put_new)
qed

lemma set_own_entries [simp]: "set (own_entries obj) = set obj"
  by (auto simp: own_entries_def)

lemma own_entries_no_index:
  "list_all (\<lambda>kv. \<not> is_array_index (fst kv)) obj \<Longrightarrow> own_entries obj = obj"
proof -
  assume a: "list_all (\<lambda>kv. \<not> is_array_index (fst kv)) obj"
  have 1: "filter (\<lambda>kv. is_array_index (fst kv)) obj = []"
    using a by (simp add: filter_empty_conv list_all_iff)
  have 2: "filter (\<lambda>kv. \<not> is_array_index (fst kv)) obj = obj"
    using a by (simp add: filter_id_conv list_all_iff)
  show ?thesis
    by (simp add: own_entries_def 1 2)
qed

lemma distinct_own_entries:
  "distinct (map fst obj) \<Longrightarrow> distinct (map fst (own_entries obj))"
proof -
  assume d: "distinct (map fst obj)"
  let ?ix = "filter (\<lambda>kv. is_array_index (fst kv)) obj"
  let ?rest = "filter (\<lambda>kv. \<not> is_array_index (fst kv)) obj"
  have 1: "distinct (map fst ?ix)" and 2: "distinct (map fst ?rest)"
    using d by (simp_all add: distinct_map_filter)
  have 3: "distinct (map fst (sort_key (\<lambda>kv. nat_of_digits (fst kv)) ?ix))"
    using 1 by (simp add: distinct_map)
  show ?thesis
    unfolding own_entries_def using 2 3 by (auto simp: distinct_map)
qed

lemma map_of_own_entries:
  "distinct (map fst obj) \<Longrightarrow> map_of (own_entries obj) = map_of obj"
  by (rule map_of_inject_set [THEN iffD2]) (simp_all add: distinct_own_entries)

lemma map_of_rev_distinct: "distinct (map fst es) \<Longrightarrow> map_of (rev es) = map_of es"
  by (rule map_of_inject_set [THEN iffD2]) (simp_all add: rev_map [symmetric])

lemma obj_literal_snoc: "obj_literal (parts @ [p]) = literal_step (obj_literal parts) p"
  by (simp add: obj_literal_def)

lemma map_of_spread_last:
  "distinct (map fst opt) \<Longrightarrow>
     map_of (obj_literal (parts @ [Spread (JObj opt)])) = map_of (obj_literal parts) ++ map_of opt"
  by (simp add: obj_literal_snoc map_of_put_all map_of_rev_distinct distinct_own_entries
      map_of_own_entries)

section \<open>Construction and argument checks\<close>

lemma createClient_Inr:
  "createClient P endpoint copt = Inr c \<Longrightarrow>
     c = client_of (request P endpoint (JStr ''hafas-rest-api-client''))"
  by (auto simp: createClient_def obj_literal_def split: sum.splits)

text \<open>
  C8. \<^verbatim>\<open>createClient\<close> returns a client exactly when the endpoint parses as a URL on
  its own (without a base); otherwise it throws the parser's error and there is no
  client whose operations could issue a request.
\<close>

theorem createClient_checks_endpoint:
  "(new_URL P endpoint None = Inr u \<longrightarrow>
      createClient P endpoint opt =
        Inr (client_of (request P endpoint (JStr ''hafas-rest-api-client''))))
   \<and> (new_URL P endpoint None = Inl e \<longrightarrow> createClient P endpoint opt = Inl e)"
  by (simp add: createClient_def obj_literal_def)

theorem createClient_checks_endpoint_witness:
  "new_URL example_platform ''https://example.test'' None =
     Inr \<lparr>href = ''https://example.test/'', searchParams = []\<rparr>
   \<and> createClient example_platform ''https://example.test'' JUndefined =
     Inr (client_of
       (request example_platform ''https://example.test'' (JStr ''hafas-rest-api-client'')))
   \<and> new_URL example_platform ''not a url'' None = Inl (TypeError ''Invalid URL'')
   \<and> createClient example_platform ''not a url'' JUndefined = Inl (TypeError ''Invalid URL'')"
  using createClient_checks_endpoint [of example_platform "''https://example.test''"
      "\<lparr>href = ''https://example.test/'', searchParams = []\<rparr>" JUndefined
      "TypeError ''Invalid URL''"]
    createClient_checks_endpoint [of example_platform "''not a url''"
      "\<lparr>href = ''https://example.test/'', searchParams = []\<rparr>" JUndefined
      "TypeError ''Invalid URL''"]
  by (simp add: example_platform_def example_URL_def)

text \<open>
  C7. A falsy id or ref makes \<^verbatim>\<open>stop\<close>, \<^verbatim>\<open>refreshJourney\<close> and \<^verbatim>\<open>trip\<close> reject with
  a type error, and a stop that is falsy, or neither a string nor an object with a
  truthy \<^verbatim>\<open>id\<close>, makes \<^verbatim>\<open>departures\<close> and \<^verbatim>\<open>arrivals\<close> reject with a type error; in
  each case the list of calls to \<^verbatim>\<open>ky.get\<close> is unchanged.
\<close>

theorem invalid_argument_no_request:
  "createClient P endpoint copt = Inr c \<Longrightarrow>
     (\<not> truthy x \<longrightarrow>
        invoke c (Stop x opt) w = (Inl (TypeError ''invalid id''), w)
        \<and> invoke c (RefreshJourney x opt) w = (Inl (TypeError ''invalid ref''), w)
        \<and> invoke c (Trip x lineName opt) w = (Inl (TypeError ''invalid id''), w))
     \<and> (\<not> truthy s \<or> (typeof s \<noteq> ''string'' \<and> \<not> truthy (get_prop s ''id'')) \<longrightarrow>
        invoke c (Departures s opt) w = (Inl (TypeError ''invalid stop''), w)
        \<and> invoke c (Arrivals s opt) w = (Inl (TypeError ''invalid stop''), w))"
  by (auto dest!: createClient_Inr
      simp: client_of_def stop_def refreshJourney_def trip_def departures_def arrivals_def
        stationBoard_def reject_def Let_def)

theorem invalid_argument_no_request_witness:
  "createClient example_platform ''https://example.test'' JUndefined =
     Inr (client_of
       (request example_platform ''https://example.test'' (JStr ''hafas-rest-api-client'')))
   \<and> \<not> truthy (JStr '''') \<and> \<not> truthy JUndefined
   \<and> typeof (JNum 5) \<noteq> ''string'' \<and> \<not> truthy (get_prop (JNum 5) ''id'')
   \<and> invoke (client_of
         (request example_platform ''https://example.test'' (JStr ''hafas-rest-api-client'')))
       (Stop (JStr '''') JUndefined) [] = (Inl (TypeError ''invalid id''), [])
   \<and> invoke (client_of
         (request example_platform ''https://example.test'' (JStr ''hafas-rest-api-client'')))
       (RefreshJourney (JStr '''') JUndefined) [] = (Inl (TypeError ''invalid ref''), [])
   \<and> invoke (client_of
         (request example_platform ''https://example.test'' (JStr ''hafas-rest-api-client'')))
       (Trip (JStr '''') JUndefined JUndefined) [] = (Inl (TypeError ''invalid id''), [])
   \<and> invoke (client_of
         (request example_platform ''https://example.test'' (JStr ''hafas-rest-api-client'')))
       (Departures JUndefined JUndefined) [] = (Inl (TypeError ''invalid stop''), [])
   \<and> invoke (client_of
         (request example_platform ''https://example.test'' (JStr ''hafas-rest-api-client'')))
       (Arrivals JUndefined JUndefined) [] = (Inl (TypeError ''invalid stop''), [])
   \<and> invoke (client_of
         (request example_platform ''https://example.test'' (JStr ''hafas-rest-api-client'')))
       (Departures (JNum 5) JUndefined) [] = (Inl (TypeError ''invalid stop''), [])"
proof -
  let ?c = "client_of
    (request example_platform ''https://example.test'' (JStr ''hafas-rest-api-client''))"
  have c: "createClient example_platform ''https://example.test'' JUndefined = Inr ?c"
    by (simp add: createClient_def example_platform_def example_URL_def obj_literal_def)
  show ?thesis
    using c invalid_argument_no_request [OF c, of "JStr ''''" JUndefined "[]" JUndefined JUndefined]
      invalid_argument_no_request [OF c, of JUndefined JUndefined "[]" JUndefined "JNum 5"]
    by simp
qed

section \<open>Facts about the request primitive\<close>

lemmas run_simps =
  client_of_def locations_def nearby_def stations_def reachableFrom_def stop_def
  departures_def arrivals_def stationBoard_def journeys_def refreshJourney_def trip_def
  radar_def with_encoded_def reject_def default_param_def
  encodeURIComponent_def encodeURIComponent_str_def uri_unescaped_def is_alnum_def
  percent_byte_def hex_digit_def qs_encode_def
  request_def build_cfg_def Object_entries_def own_entries_def obj_literal_def put_all_def
  stringifyQuery_def fromEntries_def is_array_index_def is_digit_def nat_of_digits_def
  attach_metadata_def defineProperty_def or_null_def enrich_def
  example_platform_def example_URL_def example_ok_def example_body_def
  example_failure_def example_HTTPError_def

lemmas op_defs =
  client_of_def locations_def nearby_def stations_def reachableFrom_def stop_def
  departures_def arrivals_def stationBoard_def journeys_def refreshJourney_def trip_def
  radar_def with_encoded_def reject_def

lemma example_client:
  "createClient example_platform ''https://example.test'' copt =
     Inr (client_of
       (request example_platform ''https://example.test'' (JStr ''hafas-rest-api-client'')))"
  by (simp add: createClient_def example_platform_def example_URL_def obj_literal_def)

lemma build_cfg_shape:
  assumes "Object_entries query = Inr qes" and "opt \<noteq> JUndefined" and "opt \<noteq> JNull"
  shows "build_cfg ua u query opt =
     Inr (JObj (obj_put
       (put_all [(''mode'', JStr ''cors''), (''redirect'', JStr ''follow''),
          (''searchParams'', JStr (stringifyQuery (fromEntries
             (map (\<lambda>kv. (fst kv, JStr (snd kv))) (searchParams u) @ qes))))]
          (enumerable_entries opt))
       ''headers''
       (JObj (put_all [(''Accept'', JStr ''application/json''), (''User-Agent'', ua)]
          (enumerable_entries (if truthy (get_prop opt ''headers'')
             then get_prop opt ''headers'' else JObj []))))))"
  using assms by (simp add: build_cfg_def obj_literal_def)

lemma request_sent:
  assumes "new_URL P path (Some endpoint) = Inr u"
    and "build_cfg ua u (default_param query (JObj [])) (default_param opt (JObj [])) = Inr cfg"
  shows "request P endpoint ua path query opt w =
     (case ky_get P (href u) cfg of
        Rejected err \<Rightarrow> Inl (enrich P err)
      | Resolved res \<Rightarrow>
          (case res_json res of
             Inl m \<Rightarrow> Inl (thrown m)
           | Inr body \<Rightarrow> attach_metadata res body),
      w @ [(href u, cfg)])"
  using assms by (simp add: request_def Let_def split: ky_outcome.splits sum.splits)

text \<open>What a request without transport options sends.\<close>

lemma request_plain:
  "snd (request P endpoint ua path query JUndefined w) = w
   \<or> (\<exists>u qes. new_URL P path (Some endpoint) = Inr u
        \<and> Object_entries (default_param query (JObj [])) = Inr qes
        \<and> snd (request P endpoint ua path query JUndefined w) =
            w @ [(href u, JObj
              [(''mode'', JStr ''cors''), (''redirect'', JStr ''follow''),
               (''searchParams'', JStr (stringifyQuery (fromEntries
                  (map (\<lambda>kv. (fst kv, JStr (snd kv))) (searchParams u) @ qes)))),
               (''headers'', JObj [(''Accept'', JStr ''application/json''),
                  (''User-Agent'', ua)])])])"
proof (cases "new_URL P path (Some endpoint)")
  case (Inl e)
  then show ?thesis by (simp add: request_def Let_def)
next
  case u: (Inr u)
  show ?thesis
  proof (cases "Object_entries (default_param query (JObj []))")
    case (Inl e)
    then have "build_cfg ua u (default_param query (JObj []))
        (default_param JUndefined (JObj [])) = Inl e"
      by (simp add: build_cfg_def)
    with u have "snd (request P endpoint ua path query JUndefined w) = w"
      by (simp add: request_def Let_def)
    then show ?thesis by simp
  next
    case (Inr qes)
    have "build_cfg ua u (default_param query (JObj [])) (default_param JUndefined (JObj [])) =
        Inr (JObj
              [(''mode'', JStr ''cors''), (''redirect'', JStr ''follow''),
               (''searchParams'', JStr (stringifyQuery (fromEntries
                  (map (\<lambda>kv. (fst kv, JStr (snd kv))) (searchParams u) @ qes)))),
               (''headers'', JObj [(''Accept'', JStr ''application/json''),
                  (''User-Agent'', ua)])])"
      using Inr by (simp add: build_cfg_def obj_literal_def default_param_def own_entries_def)
    from request_sent [OF u this, of w] u Inr show ?thesis
      by simp
  qed
qed

text \<open>Every operation either rejects at once or makes one request without transport options.\<close>

lemma invoke_one_request:
  "invoke (client_of req) call w = (Inl (TypeError ''invalid id''), w)
   \<or> invoke (client_of req) call w = (Inl (TypeError ''invalid ref''), w)
   \<or> invoke (client_of req) call w = (Inl (TypeError ''invalid stop''), w)
   \<or> invoke (client_of req) call w =
        (Inl (TypeError ''Cannot convert object to primitive value''), w)
   \<or> (\<exists>path query. invoke (client_of req) call w = req path query JUndefined w)"
  by (cases call)
    (auto simp: client_of_def locations_def nearby_def stations_def reachableFrom_def stop_def
      departures_def arrivals_def stationBoard_def journeys_def refreshJourney_def trip_def
      radar_def with_encoded_def reject_def Let_def split: option.splits)

lemma invoke_sends_plain:
  "snd (invoke (client_of (request P endpoint ua)) call w) = w
   \<or> (\<exists>h sp. snd (invoke (client_of (request P endpoint ua)) call w) =
        w @ [(h, JObj
          [(''mode'', JStr ''cors''), (''redirect'', JStr ''follow''),
           (''searchParams'', JStr sp),
           (''headers'', JObj [(''Accept'', JStr ''application/json''),
              (''User-Agent'', ua)])])])"
proof -
  consider (rej) e where "invoke (client_of (request P endpoint ua)) call w = (Inl e, w)"
    | (req) path query where "invoke (client_of (request P endpoint ua)) call w =
        request P endpoint ua path query JUndefined w"
    using invoke_one_request [of "request P endpoint ua" call w] by blast
  then show ?thesis
  proof cases
    case rej
    then show ?thesis by simp
  next
    case req
    from request_plain [of P endpoint ua path query w] show ?thesis
      unfolding req by (elim disjE exE conjE) auto
  qed
qed

section \<open>The user agent\<close>

text \<open>
  C5. \<^verbatim>\<open>createClient\<close> does not read its options: the client is the same whatever is
  passed, and every call to \<^verbatim>\<open>ky.get\<close> that an operation of the client makes carries
  the header \<^verbatim>\<open>User-Agent: hafas-rest-api-client\<close>.
\<close>

theorem userAgent_option_ignored:
  "createClient P endpoint copt = createClient P endpoint JUndefined
   \<and> (createClient P endpoint copt = Inr c \<longrightarrow>
        (\<exists>sent. snd (invoke c call w) = w @ sent
           \<and> list_all (\<lambda>sent_call.
                 get_prop (get_prop (snd sent_call) ''headers'') ''User-Agent''
                   = JStr ''hafas-rest-api-client'') sent))"
proof (intro conjI impI)
  show "createClient P endpoint copt = createClient P endpoint JUndefined"
    by (simp add: createClient_def)
next
  assume "createClient P endpoint copt = Inr c"
  then have c: "c = client_of (request P endpoint (JStr ''hafas-rest-api-client''))"
    by (rule createClient_Inr)
  from invoke_sends_plain [of P endpoint "JStr ''hafas-rest-api-client''" call w]
  show "\<exists>sent. snd (invoke c call w) = w @ sent
      \<and> list_all (\<lambda>sent_call.
            get_prop (get_prop (snd sent_call) ''headers'') ''User-Agent''
              = JStr ''hafas-rest-api-client'') sent"
    unfolding c by (elim disjE exE) auto
qed

theorem userAgent_option_ignored_witness:
  "createClient example_platform ''https://example.test''
       (JObj [(''userAgent'', JStr ''my awesome project'')]) =
     Inr (client_of
       (request example_platform ''https://example.test'' (JStr ''hafas-rest-api-client'')))
   \<and> snd (invoke (client_of
       (request example_platform ''https://example.test'' (JStr ''hafas-rest-api-client'')))
         (Stop (JStr ''900000003201'') JUndefined) []) =
       [(''https://example.test/stops/900000003201'',
         JObj [(''mode'', JStr ''cors''), (''redirect'', JStr ''follow''),
               (''searchParams'', JStr ''''),
               (''headers'', JObj [(''Accept'', JStr ''application/json''),
                  (''User-Agent'', JStr ''hafas-rest-api-client'')])])]"
  using userAgent_option_ignored [of example_platform "''https://example.test''"
      "JObj [(''userAgent'', JStr ''my awesome project'')]"
      "client_of
        (request example_platform ''https://example.test'' (JStr ''hafas-rest-api-client''))"
      "Stop (JStr ''900000003201'') JUndefined" "[]"]
    example_client [of "JObj [(''userAgent'', JStr ''my awesome project'')]"]
  by (simp add: run_simps)

section \<open>Facts about percent-encoding\<close>

lemma hex_digit_alnum: "n < 16 \<Longrightarrow> is_alnum (hex_digit n)"
proof -
  assume n: "n < 16"
  have "list_all is_alnum ''0123456789ABCDEF''"
    by (simp add: is_alnum_def)
  then have all: "\<forall>c \<in> set ''0123456789ABCDEF''. is_alnum c"
    by (simp only: list_all_iff)
  have len: "length ''0123456789ABCDEF'' = 16"
    by simp
  have "''0123456789ABCDEF'' ! n \<in> set ''0123456789ABCDEF''"
    by (rule nth_mem) (simp only: len n)
  with all show ?thesis
    unfolding hex_digit_def by blast
qed

lemma percent_byte_chars:
  "c' \<in> set (percent_byte c) \<Longrightarrow> c' = CHR ''%'' \<or> is_alnum c'"
proof -
  have 1: "(of_char c :: nat) div 16 < 16"
    using nat_of_char_less_256 [of c] by arith
  have 2: "(of_char c :: nat) mod 16 < 16" by simp
  assume "c' \<in> set (percent_byte c)"
  then show ?thesis
    using hex_digit_alnum [OF 1] hex_digit_alnum [OF 2] by (auto simp: percent_byte_def)
qed

lemma encodeURIComponent_chars:
  assumes "c \<in> set (encodeURIComponent_str s)"
  shows "c = CHR ''%'' \<or> uri_unescaped c"
proof -
  from assms obtain x where x: "x \<in> set s"
    and c: "c \<in> set (if uri_unescaped x then [x] else percent_byte x)"
    unfolding encodeURIComponent_str_def by auto
  show ?thesis
  proof (cases "uri_unescaped x")
    case True
    with c show ?thesis by simp
  next
    case False
    with c have "c \<in> set (percent_byte x)" by simp
    then have "c = CHR ''%'' \<or> is_alnum c" by (rule percent_byte_chars)
    then show ?thesis
      unfolding uri_unescaped_def by blast
  qed
qed

lemma delims_escaped:
  "\<not> uri_unescaped (CHR ''/'')" "\<not> uri_unescaped (CHR ''?'')"
  "\<not> uri_unescaped (CHR ''#'')" "\<not> uri_unescaped (CHR ''&'')"
  "\<not> uri_unescaped (CHR ''%'')"
  by (simp_all add: uri_unescaped_def is_alnum_def)

lemma encodeURIComponent_no_delim:
  "\<not> uri_unescaped c \<Longrightarrow> c \<noteq> CHR ''%'' \<Longrightarrow> c \<notin> set (encodeURIComponent_str s)"
  using encodeURIComponent_chars [of c s] by blast

lemma encodeURIComponent_no_slash: "CHR ''/'' \<notin> set (encodeURIComponent_str s)"
  by (rule encodeURIComponent_no_delim) (simp_all add: delims_escaped)

lemma encodeURIComponent_str_simps:
  "encodeURIComponent_str [] = []"
  "encodeURIComponent_str (c # s) =
     (if uri_unescaped c then [c] else percent_byte c) @ encodeURIComponent_str s"
  by (simp_all add: encodeURIComponent_str_def)

lemma hex_digit_inj: "a < 16 \<Longrightarrow> b < 16 \<Longrightarrow> hex_digit a = hex_digit b \<Longrightarrow> a = b"
proof -
  assume a: "a < 16" and b: "b < 16" and eq: "hex_digit a = hex_digit b"
  have d: "distinct ''0123456789ABCDEF''" by simp
  have l: "length ''0123456789ABCDEF'' = 16" by simp
  from eq show "a = b"
    unfolding hex_digit_def using nth_eq_iff_index_eq [OF d, of a b] a b l by simp
qed

lemma percent_byte_inj: "percent_byte c = percent_byte d \<Longrightarrow> c = d"
proof -
  assume eq: "percent_byte c = percent_byte d"
  have c1: "(of_char c :: nat) div 16 < 16" using nat_of_char_less_256 [of c] by arith
  have d1: "(of_char d :: nat) div 16 < 16" using nat_of_char_less_256 [of d] by arith
  have c2: "(of_char c :: nat) mod 16 < 16" and d2: "(of_char d :: nat) mod 16 < 16" by simp_all
  from eq have "hex_digit (of_char c div 16) = hex_digit (of_char d div 16)"
    and "hex_digit (of_char c mod 16) = hex_digit (of_char d mod 16)"
    by (simp_all add: percent_byte_def)
  then have "(of_char c :: nat) div 16 = of_char d div 16"
    and "(of_char c :: nat) mod 16 = of_char d mod 16"
    using hex_digit_inj c1 d1 c2 d2 by blast+
  then have "(of_char c :: nat) = of_char d"
    by (metis div_mult_mod_eq)
  then show "c = d" by simp
qed

lemma encodeURIComponent_inj:
  "encodeURIComponent_str s = encodeURIComponent_str t \<Longrightarrow> s = t"
proof (induction s arbitrary: t)
  case Nil
  then show ?case
    by (cases t) (auto simp: encodeURIComponent_str_simps percent_byte_def split: if_splits)
next
  case (Cons c s)
  show ?case
  proof (cases t)
    case Nil
    with Cons.prems show ?thesis
      by (auto simp: encodeURIComponent_str_simps percent_byte_def split: if_splits)
  next
    case (Cons d t')
    have pc: "\<not> uri_unescaped (CHR ''%'')" by (rule delims_escaped)
    from Cons.prems have eq:
      "(if uri_unescaped c then [c] else percent_byte c) @ encodeURIComponent_str s =
       (if uri_unescaped d then [d] else percent_byte d) @ encodeURIComponent_str t'"
      unfolding Cons by (simp add: encodeURIComponent_str_simps)
    consider (uu) "uri_unescaped c" "uri_unescaped d"
      | (ue) "uri_unescaped c" "\<not> uri_unescaped d"
      | (eu) "\<not> uri_unescaped c" "uri_unescaped d"
      | (ee) "\<not> uri_unescaped c" "\<not> uri_unescaped d"
      by blast
    then have "c = d \<and> encodeURIComponent_str s = encodeURIComponent_str t'"
    proof cases
      case uu
      with eq show ?thesis by simp
    next
      case ue
      with eq have "c = CHR ''%''" by (simp add: percent_byte_def)
      with ue pc show ?thesis by simp
    next
      case eu
      with eq have "d = CHR ''%''" by (simp add: percent_byte_def)
      with eu pc show ?thesis by simp
    next
      case ee
      with eq have "percent_byte c = percent_byte d
          \<and> encodeURIComponent_str s = encodeURIComponent_str t'"
        by (simp add: percent_byte_def)
      then show ?thesis using percent_byte_inj by blast
    qed
    then show ?thesis
      unfolding Cons using Cons.IH by blast
  qed
qed

lemma not_arrivals_stop: "\<not> is_arrivals_path (''/stops/'' @ encodeURIComponent_str s)"
proof
  assume "is_arrivals_path (''/stops/'' @ encodeURIComponent_str s)"
  then have "suffix ''/arrivals'' (encodeURIComponent_str s)"
    by (simp add: is_arrivals_path_def)
  then have "set ''/arrivals'' \<subseteq> set (encodeURIComponent_str s)"
    by (rule set_mono_suffix)
  then have "CHR ''/'' \<in> set (encodeURIComponent_str s)" by simp
  then show False by (simp add: encodeURIComponent_no_slash)
qed

lemma not_arrivals_departures:
  "\<not> is_arrivals_path (''/stops/'' @ e @ ''/departures'')"
proof
  assume "is_arrivals_path (''/stops/'' @ e @ ''/departures'')"
  then have "suffix ''/arrivals'' (e @ ''/departures'')"
    by (simp add: is_arrivals_path_def)
  then obtain zs where "e @ ''/departures'' = zs @ ''/arrivals''"
    by (auto simp: suffix_def)
  then have "last (e @ ''/departures'') = last (zs @ ''/arrivals'')
      \<and> butlast (e @ ''/departures'') = butlast (zs @ ''/arrivals'')" by simp
  then have "take 9 (rev (e @ ''/departures'')) = take 9 (rev (zs @ ''/arrivals''))"
    using \<open>e @ ''/departures'' = zs @ ''/arrivals''\<close> by simp
  then show False by simp
qed

section \<open>What the operations request\<close>

lemma recording_third_argument:
  "list_all (\<lambda>r. snd (snd r) = JUndefined) (snd (invoke (client_of recording) call []))"
  by (cases call) (auto simp: op_defs recording_def Let_def split: option.splits)

lemma recording_no_arrivals:
  "list_all (\<lambda>r. \<not> is_arrivals_path (fst r)) (snd (invoke (client_of recording) call []))"
proof (cases call)
  case (Stop x opt)
  then show ?thesis
    by (auto simp: op_defs recording_def Let_def encodeURIComponent_def
        not_arrivals_stop [simplified] split: option.splits)
next
  case (Departures s opt)
  then show ?thesis
    by (auto simp: op_defs recording_def Let_def not_arrivals_departures [simplified]
        split: option.splits)
next
  case (Arrivals s opt)
  then show ?thesis
    by (auto simp: op_defs recording_def Let_def not_arrivals_departures [simplified]
        split: option.splits)
qed (auto simp: op_defs recording_def Let_def is_arrivals_path_def suffix_to_prefix
    split: option.splits)

section \<open>The request configuration\<close>

text \<open>
  C6. For an options object \<open>opt\<close> (with distinct keys), the configuration handed to
  \<^verbatim>\<open>ky.get\<close> is the defaults \<^verbatim>\<open>mode: cors\<close>, \<^verbatim>\<open>redirect: follow\<close> and the computed
  \<^verbatim>\<open>searchParams\<close>, overridden key by key by the entries of \<open>opt\<close> (each value taken
  whole), with \<^verbatim>\<open>headers\<close> set last to the two default headers overridden key by key
  by the entries of \<^verbatim>\<open>opt.headers\<close> when that is truthy.
\<close>

theorem cfg_defaults_and_overrides:
  assumes "new_URL P path (Some endpoint) = Inr u"
    and "Object_entries (default_param query (JObj [])) = Inr qes"
    and "distinct (map fst opt)"
    and "hsrc = (if truthy (get_prop (JObj opt) ''headers'')
                 then get_prop (JObj opt) ''headers'' else JObj [])"
    and "distinct (map fst (enumerable_entries hsrc))"
  shows "\<exists>cfg hs. snd (request P endpoint ua path query (JObj opt) w) = w @ [(href u, JObj cfg)]
     \<and> map_of cfg =
         (map_of [(''mode'', JStr ''cors''), (''redirect'', JStr ''follow''),
            (''searchParams'', JStr (stringifyQuery (fromEntries
               (map (\<lambda>kv. (fst kv, JStr (snd kv))) (searchParams u) @ qes))))]
          ++ map_of opt)(''headers'' \<mapsto> JObj hs)
     \<and> map_of hs =
         map_of [(''Accept'', JStr ''application/json''), (''User-Agent'', ua)]
         ++ map_of (enumerable_entries hsrc)"
proof -
  let ?base = "[(''mode'', JStr ''cors''), (''redirect'', JStr ''follow''),
     (''searchParams'', JStr (stringifyQuery (fromEntries
        (map (\<lambda>kv. (fst kv, JStr (snd kv))) (searchParams u) @ qes))))]"
  let ?hs = "put_all [(''Accept'', JStr ''application/json''), (''User-Agent'', ua)]
     (enumerable_entries hsrc)"
  let ?cfg = "obj_put (put_all ?base (enumerable_entries (JObj opt))) ''headers'' (JObj ?hs)"
  have e: "map_of (rev (enumerable_entries (JObj opt))) = map_of opt"
    using assms(3) by (simp add: map_of_rev_distinct distinct_own_entries map_of_own_entries)
  have h: "map_of (rev (enumerable_entries hsrc)) = map_of (enumerable_entries hsrc)"
    using assms(5) by (rule map_of_rev_distinct)
  have "build_cfg ua u (default_param query (JObj [])) (JObj opt) = Inr (JObj ?cfg)"
    unfolding assms(4) by (rule build_cfg_shape [OF assms(2)]) simp_all
  then have "build_cfg ua u (default_param query (JObj [])) (default_param (JObj opt) (JObj []))
      = Inr (JObj ?cfg)"
    by (simp add: default_param_def)
  from request_sent [OF assms(1) this]
  have 1: "snd (request P endpoint ua path query (JObj opt) w) = w @ [(href u, JObj ?cfg)]"
    by simp
  have 2: "map_of ?cfg = (map_of ?base ++ map_of opt)(''headers'' \<mapsto> JObj ?hs)"
    by (simp only: map_of_obj_put map_of_put_all e)
  have 3: "map_of ?hs =
      map_of [(''Accept'', JStr ''application/json''), (''User-Agent'', ua)]
      ++ map_of (enumerable_entries hsrc)"
    by (simp only: map_of_put_all h)
  show ?thesis
    using 1 2 3 by blast
qed

theorem cfg_defaults_and_overrides_witness:
  "new_URL example_platform ''/stops/900000003201'' (Some ''https://example.test'') =
     Inr \<lparr>href = ''https://example.test/stops/900000003201'', searchParams = []\<rparr>
   \<and> Object_entries (default_param JUndefined (JObj [])) = Inr []
   \<and> distinct (map fst [(''redirect'', JStr ''manual''),
         (''headers'', JObj [(''Accept'', JStr ''text/html''), (''X-Test'', JStr ''1'')])])
   \<and> distinct (map fst (enumerable_entries
         (JObj [(''Accept'', JStr ''text/html''), (''X-Test'', JStr ''1'')])))
   \<and> snd (request example_platform ''https://example.test'' (JStr ''hafas-rest-api-client'')
      ''/stops/900000003201'' JUndefined
      (JObj [(''redirect'', JStr ''manual''),
             (''headers'', JObj [(''Accept'', JStr ''text/html''), (''X-Test'', JStr ''1'')])])
      []) =
   [(''https://example.test/stops/900000003201'',
     JObj [(''mode'', JStr ''cors''), (''redirect'', JStr ''manual''),
           (''searchParams'', JStr ''''),
           (''headers'', JObj [(''Accept'', JStr ''text/html''),
              (''User-Agent'', JStr ''hafas-rest-api-client''), (''X-Test'', JStr ''1'')])])]"
  using cfg_defaults_and_overrides [of example_platform "''/stops/900000003201''"
      "''https://example.test''"
      "\<lparr>href = ''https://example.test/stops/900000003201'', searchParams = []\<rparr>"
      JUndefined "[]"
      "[(''redirect'', JStr ''manual''),
        (''headers'', JObj [(''Accept'', JStr ''text/html''), (''X-Test'', JStr ''1'')])]"
      "JObj [(''Accept'', JStr ''text/html''), (''X-Test'', JStr ''1'')]"
      "JStr ''hafas-rest-api-client''" "[]"]
  by (simp add: run_simps)

section \<open>Where the options of an operation go\<close>

text \<open>
  C10. Whatever request function a client is built over, every operation calls it
  with the options spread into the query object (\<^verbatim>\<open>locations\<close>, \<^verbatim>\<open>nearby\<close>,
  \<^verbatim>\<open>stations\<close>, \<^verbatim>\<open>reachableFrom\<close>, \<^verbatim>\<open>journeys\<close>, \<^verbatim>\<open>trip\<close>, \<^verbatim>\<open>radar\<close>) or as the
  query itself (\<^verbatim>\<open>stop\<close>, \<^verbatim>\<open>departures\<close>, \<^verbatim>\<open>arrivals\<close>, \<^verbatim>\<open>refreshJourney\<close>), and with
  the third argument undefined: a recording request function never sees another
  third argument. Spreading an options object last puts each of its entries into the
  query object. So, on a real client, whatever the options are, the configuration of
  a call to \<^verbatim>\<open>ky.get\<close> has the default mode, redirect policy and headers, and only
  \<^verbatim>\<open>searchParams\<close> depends on the options.
\<close>

theorem options_go_into_the_query:
  "invoke (client_of req) (Locations q opt) =
     req ''/locations''
       (JObj (obj_literal [Prop ''query'' q, Spread (default_param opt (JObj []))]))
       JUndefined
   \<and> invoke (client_of req) (Nearby loc opt) =
     req ''/stops/nearby''
       (JObj (obj_literal [Spread loc, Spread (default_param opt (JObj []))])) JUndefined
   \<and> invoke (client_of req) (Stations q opt) =
     req ''/stations''
       (JObj (obj_literal [Spread (default_param opt (JObj [])), Prop ''query'' q]))
       JUndefined
   \<and> invoke (client_of req) (ReachableFrom loc opt) =
     req ''/stops/reachable-from''
       (JObj (obj_literal [Spread loc, Spread (default_param opt (JObj []))])) JUndefined
   \<and> invoke (client_of req) (Journeys origin dest opt) =
     req ''/journeys''
       (JObj (obj_literal [Prop ''from'' origin, Prop ''to'' dest,
          Spread (default_param opt (JObj []))])) JUndefined
   \<and> invoke (client_of req) (Radar bbox opt) =
     req ''/radar''
       (JObj (obj_literal [Spread bbox, Spread (default_param opt (JObj []))])) JUndefined
   \<and> (truthy x \<and> encodeURIComponent x = Some e \<longrightarrow>
        invoke (client_of req) (Stop x opt) =
          req (''/stops/'' @ e) (default_param opt (JObj [])) JUndefined
        \<and> invoke (client_of req) (RefreshJourney x opt) =
          req (''/journeys/'' @ e) (default_param opt (JObj [])) JUndefined
        \<and> invoke (client_of req) (Trip x lineName opt) =
          req (''/trips/'' @ e)
            (JObj (obj_literal [Prop ''lineName'' lineName,
               Spread (default_param opt (JObj []))])) JUndefined)
   \<and> (truthy s \<and> (truthy (get_prop s ''id'') \<or> typeof s = ''string'')
        \<and> encodeURIComponent (if truthy (get_prop s ''id'') then get_prop s ''id'' else s)
            = Some e \<longrightarrow>
        invoke (client_of req) (Departures s opt) =
          req (''/stops/'' @ e @ ''/departures'') (default_param opt (JObj [])) JUndefined
        \<and> invoke (client_of req) (Arrivals s opt) =
          req (''/stops/'' @ e @ ''/departures'') (default_param opt (JObj [])) JUndefined)
   \<and> (distinct (map fst opts) \<longrightarrow>
        map_of (obj_literal (parts @ [Spread (JObj opts)])) =
          map_of (obj_literal parts) ++ map_of opts)
   \<and> list_all (\<lambda>r. snd (snd r) = JUndefined) (snd (invoke (client_of recording) call []))
   \<and> (createClient P endpoint copt = Inr c \<longrightarrow>
        snd (invoke c call w0) = w0
        \<or> (\<exists>h sp. snd (invoke c call w0) =
             w0 @ [(h, JObj
               [(''mode'', JStr ''cors''), (''redirect'', JStr ''follow''),
                (''searchParams'', JStr sp),
                (''headers'', JObj [(''Accept'', JStr ''application/json''),
                   (''User-Agent'', JStr ''hafas-rest-api-client'')])])]))"
proof -
  have real: "createClient P endpoint copt = Inr c \<longrightarrow>
        snd (invoke c call w0) = w0
        \<or> (\<exists>h sp. snd (invoke c call w0) =
             w0 @ [(h, JObj
               [(''mode'', JStr ''cors''), (''redirect'', JStr ''follow''),
                (''searchParams'', JStr sp),
                (''headers'', JObj [(''Accept'', JStr ''application/json''),
                   (''User-Agent'', JStr ''hafas-rest-api-client'')])])])"
    using invoke_sends_plain [of P endpoint "JStr ''hafas-rest-api-client''" call w0]
    by (auto dest!: createClient_Inr)
  have fixed: "invoke (client_of req) (Locations q opt) =
     req ''/locations''
       (JObj (obj_literal [Prop ''query'' q, Spread (default_param opt (JObj []))]))
       JUndefined"
    "invoke (client_of req) (Nearby loc opt) =
     req ''/stops/nearby''
       (JObj (obj_literal [Spread loc, Spread (default_param opt (JObj []))])) JUndefined"
    "invoke (client_of req) (Stations q opt) =
     req ''/stations''
       (JObj (obj_literal [Spread (default_param opt (JObj [])), Prop ''query'' q]))
       JUndefined"
    "invoke (client_of req) (ReachableFrom loc opt) =
     req ''/stops/reachable-from''
       (JObj (obj_literal [Spread loc, Spread (default_param opt (JObj []))])) JUndefined"
    "invoke (client_of req) (Journeys origin dest opt) =
     req ''/journeys''
       (JObj (obj_literal [Prop ''from'' origin, Prop ''to'' dest,
          Spread (default_param opt (JObj []))])) JUndefined"
    "invoke (client_of req) (Radar bbox opt) =
     req ''/radar''
       (JObj (obj_literal [Spread bbox, Spread (default_param opt (JObj []))])) JUndefined"
    by (simp_all add: op_defs Let_def)
  have ids: "truthy x \<and> encodeURIComponent x = Some e \<longrightarrow>
        invoke (client_of req) (Stop x opt) =
          req (''/stops/'' @ e) (default_param opt (JObj [])) JUndefined
        \<and> invoke (client_of req) (RefreshJourney x opt) =
          req (''/journeys/'' @ e) (default_param opt (JObj [])) JUndefined
        \<and> invoke (client_of req) (Trip x lineName opt) =
          req (''/trips/'' @ e)
            (JObj (obj_literal [Prop ''lineName'' lineName,
               Spread (default_param opt (JObj []))])) JUndefined"
    by (simp add: op_defs Let_def)
  have boards: "truthy s \<and> (truthy (get_prop s ''id'') \<or> typeof s = ''string'')
        \<and> encodeURIComponent (if truthy (get_prop s ''id'') then get_prop s ''id'' else s)
            = Some e \<longrightarrow>
        invoke (client_of req) (Departures s opt) =
          req (''/stops/'' @ e @ ''/departures'') (default_param opt (JObj [])) JUndefined
        \<and> invoke (client_of req) (Arrivals s opt) =
          req (''/stops/'' @ e @ ''/departures'') (default_param opt (JObj [])) JUndefined"
    by (auto simp: op_defs Let_def)
  show ?thesis
    using real fixed ids boards map_of_spread_last [of opts parts]
      recording_third_argument [of call]
    by (intro conjI) blast+
qed

theorem options_go_into_the_query_witness:
  "truthy (JStr ''900000003201'')
   \<and> encodeURIComponent (JStr ''900000003201'') = Some ''900000003201''
   \<and> invoke (client_of recording)
        (Stop (JStr ''900000003201'') (JObj [(''redirect'', JStr ''manual'')])) [] =
       (Inr (), [(''/stops/900000003201'', JObj [(''redirect'', JStr ''manual'')], JUndefined)])
   \<and> distinct (map fst [(''results'', JNum 1)])
   \<and> createClient example_platform ''https://example.test'' JUndefined =
       Inr (client_of
         (request example_platform ''https://example.test'' (JStr ''hafas-rest-api-client'')))
   \<and> snd (invoke (client_of
         (request example_platform ''https://example.test'' (JStr ''hafas-rest-api-client'')))
       (Journeys (JStr ''A'') (JStr ''B'')
         (JObj [(''results'', JNum 1), (''redirect'', JStr ''manual''),
                (''headers'', JObj [(''X-Test'', JStr ''1'')])])) []) =
       [(''https://example.test/journeys'',
         JObj [(''mode'', JStr ''cors''), (''redirect'', JStr ''follow''),
               (''searchParams'',
                  JStr ''from=A&to=B&results=1&redirect=manual&headers.X-Test=1''),
               (''headers'', JObj [(''Accept'', JStr ''application/json''),
                  (''User-Agent'', JStr ''hafas-rest-api-client'')])])]"
  using options_go_into_the_query [where req = recording
      and x = "JStr ''900000003201''" and e = "''900000003201''"
      and opt = "JObj [(''redirect'', JStr ''manual'')]"
      and s = "JStr ''900000003201''" and opts = "[(''results'', JNum 1)]" and parts = "[]"
      and P = example_platform and endpoint = "''https://example.test''" and copt = JUndefined
      and c = "client_of
         (request example_platform ''https://example.test'' (JStr ''hafas-rest-api-client''))"
      and ?call = "Journeys (JStr ''A'') (JStr ''B'')
         (JObj [(''results'', JNum 1), (''redirect'', JStr ''manual''),
                (''headers'', JObj [(''X-Test'', JStr ''1'')])])" and ?w0.0 = "[]"
      and q = JUndefined and loc = JUndefined and origin = JUndefined and dest = JUndefined
      and bbox = JUndefined and lineName = JUndefined]
    example_client [of JUndefined]
  by (simp add: run_simps recording_def show_int_def show_nat.simps)

section \<open>The station boards\<close>

text \<open>
  C4. \<^verbatim>\<open>arrivals\<close> and \<^verbatim>\<open>departures\<close> are the same function of the request
  function; for a stop they accept, both request \<^verbatim>\<open>/stops/{id}/departures\<close> with the
  encoded id; and no operation of a client ever requests a path of the form
  \<^verbatim>\<open>/stops/{id}/arrivals\<close>.
\<close>

theorem arrivals_is_departures:
  "arrivals req = departures req
   \<and> (truthy s \<and> (truthy (get_prop s ''id'') \<or> typeof s = ''string'')
        \<and> encodeURIComponent (if truthy (get_prop s ''id'') then get_prop s ''id'' else s)
            = Some e \<longrightarrow>
        departures req s opt =
          req (''/stops/'' @ e @ ''/departures'') (default_param opt (JObj [])) JUndefined
        \<and> arrivals req s opt =
          req (''/stops/'' @ e @ ''/departures'') (default_param opt (JObj [])) JUndefined)
   \<and> list_all (\<lambda>r. \<not> is_arrivals_path (fst r)) (snd (invoke (client_of recording) call []))"
proof (intro conjI)
  show "arrivals req = departures req"
    by (simp add: arrivals_def departures_def stationBoard_def fun_eq_iff)
  show "truthy s \<and> (truthy (get_prop s ''id'') \<or> typeof s = ''string'')
        \<and> encodeURIComponent (if truthy (get_prop s ''id'') then get_prop s ''id'' else s)
            = Some e \<longrightarrow>
        departures req s opt =
          req (''/stops/'' @ e @ ''/departures'') (default_param opt (JObj [])) JUndefined
        \<and> arrivals req s opt =
          req (''/stops/'' @ e @ ''/departures'') (default_param opt (JObj [])) JUndefined"
    by (auto simp: arrivals_def departures_def stationBoard_def with_encoded_def Let_def)
  show "list_all (\<lambda>r. \<not> is_arrivals_path (fst r))
      (snd (invoke (client_of recording) call []))"
    by (rule recording_no_arrivals)
qed

theorem arrivals_is_departures_witness:
  "truthy (JStr ''900000003201'')
   \<and> encodeURIComponent (JStr ''900000003201'') = Some ''900000003201''
   \<and> invoke (client_of recording) (Arrivals (JStr ''900000003201'') JUndefined) [] =
       (Inr (), [(''/stops/900000003201/departures'', JObj [], JUndefined)])
   \<and> invoke (client_of recording) (Departures (JStr ''900000003201'') JUndefined) [] =
       (Inr (), [(''/stops/900000003201/departures'', JObj [], JUndefined)])
   \<and> \<not> is_arrivals_path ''/stops/900000003201/departures''
   \<and> is_arrivals_path ''/stops/900000003201/arrivals''"
  using arrivals_is_departures [of recording "JStr ''900000003201''" "''900000003201''"
      JUndefined "Arrivals (JStr ''900000003201'') JUndefined"]
  by (simp add: run_simps recording_def is_arrivals_path_def suffix_to_prefix)

section \<open>Identifiers in paths\<close>

text \<open>
  C9. The id of \<^verbatim>\<open>stop\<close> and \<^verbatim>\<open>trip\<close>, the ref of \<^verbatim>\<open>refreshJourney\<close> and the stop id
  of the station boards enter the path as \<^verbatim>\<open>encodeURIComponent\<close> of their string
  form: every byte of the inserted segment is an unescaped character or belongs to a
  \<^verbatim>\<open>%XX\<close> escape, the segment contains no slash, and different identifiers give
  different segments.
\<close>

theorem identifiers_are_percent_encoded:
  "(truthy x \<and> ToString x = Some s \<longrightarrow>
      stop req x opt =
        req (''/stops/'' @ encodeURIComponent_str s) (default_param opt (JObj [])) JUndefined
      \<and> refreshJourney req x opt =
        req (''/journeys/'' @ encodeURIComponent_str s) (default_param opt (JObj [])) JUndefined
      \<and> trip req x lineName opt =
        req (''/trips/'' @ encodeURIComponent_str s)
          (JObj (obj_literal [Prop ''lineName'' lineName,
             Spread (default_param opt (JObj []))])) JUndefined)
   \<and> (truthy st \<and> (truthy (get_prop st ''id'') \<or> typeof st = ''string'')
        \<and> ToString (if truthy (get_prop st ''id'') then get_prop st ''id'' else st) = Some s
      \<longrightarrow> stationBoard type req st opt =
        req (''/stops/'' @ encodeURIComponent_str s @ ''/departures'')
          (default_param opt (JObj [])) JUndefined)
   \<and> list_all (\<lambda>c. c = CHR ''%'' \<or> uri_unescaped c) (encodeURIComponent_str s)
   \<and> CHR ''/'' \<notin> set (encodeURIComponent_str s)
   \<and> (encodeURIComponent_str s = encodeURIComponent_str t \<longrightarrow> s = t)"
proof (intro conjI)
  show "truthy x \<and> ToString x = Some s \<longrightarrow>
      stop req x opt =
        req (''/stops/'' @ encodeURIComponent_str s) (default_param opt (JObj [])) JUndefined
      \<and> refreshJourney req x opt =
        req (''/journeys/'' @ encodeURIComponent_str s) (default_param opt (JObj [])) JUndefined
      \<and> trip req x lineName opt =
        req (''/trips/'' @ encodeURIComponent_str s)
          (JObj (obj_literal [Prop ''lineName'' lineName,
             Spread (default_param opt (JObj []))])) JUndefined"
    by (simp add: stop_def refreshJourney_def trip_def with_encoded_def encodeURIComponent_def
        Let_def)
  show "truthy st \<and> (truthy (get_prop st ''id'') \<or> typeof st = ''string'')
        \<and> ToString (if truthy (get_prop st ''id'') then get_prop st ''id'' else st) = Some s
      \<longrightarrow> stationBoard type req st opt =
        req (''/stops/'' @ encodeURIComponent_str s @ ''/departures'')
          (default_param opt (JObj [])) JUndefined"
    by (auto simp: stationBoard_def with_encoded_def encodeURIComponent_def Let_def)
  show "list_all (\<lambda>c. c = CHR ''%'' \<or> uri_unescaped c) (encodeURIComponent_str s)"
    unfolding list_all_iff using encodeURIComponent_chars [of _ s] by blast
  show "CHR ''/'' \<notin> set (encodeURIComponent_str s)"
    by (rule encodeURIComponent_no_slash)
  show "encodeURIComponent_str s = encodeURIComponent_str t \<longrightarrow> s = t"
    using encodeURIComponent_inj by blast
qed

theorem identifiers_are_percent_encoded_witness:
  "truthy (JStr ''a/b c?'')
   \<and> ToString (JStr ''a/b c?'') = Some ''a/b c?''
   \<and> encodeURIComponent_str ''a/b c?'' = ''a%2Fb%20c%3F''
   \<and> stop recording (JStr ''a/b c?'') JUndefined [] =
       (Inr (), [(''/stops/a%2Fb%20c%3F'', JObj [], JUndefined)])
   \<and> stationBoard ''arrivals'' recording (JObj [(''id'', JStr ''a/b c?'')]) JUndefined [] =
       (Inr (), [(''/stops/a%2Fb%20c%3F/departures'', JObj [], JUndefined)])"
  using identifiers_are_percent_encoded [of "JStr ''a/b c?''" "''a/b c?''" recording JUndefined
      JUndefined "JObj [(''id'', JStr ''a/b c?'')]" "''arrivals''" "''a/b c?''"]
  by (simp add: run_simps recording_def)

section \<open>Facts about merging, enrichment and attachment\<close>

lemma fromEntries_keys:
  "distinct (map fst (fromEntries es))"
  "set (map fst (fromEntries es)) = set (map fst es)"
  "map_of (fromEntries es) = map_of (rev es)"
  "map fst (fromEntries es) = rev (remdups (rev (map fst es)))"
  using distinct_put_all [of "[]" es] set_keys_put_all [of "[]" es] map_of_put_all [of "[]" es]
    keys_put_all_empty [of es]
  by (simp_all add: fromEntries_def)

lemma own_entries_fromEntries:
  assumes "list_all (\<lambda>kv. \<not> is_array_index (fst kv)) es"
  shows "own_entries (fromEntries es) = fromEntries es"
proof (rule own_entries_no_index)
  have "\<forall>k \<in> set (map fst es). \<not> is_array_index k"
    using assms by (auto simp: list_all_iff)
  then have "\<forall>k \<in> set (map fst (fromEntries es)). \<not> is_array_index k"
    by (simp only: fromEntries_keys(2))
  then show "list_all (\<lambda>kv. \<not> is_array_index (fst kv)) (fromEntries es)"
    by (auto simp: list_all_iff)
qed

lemma map_fst_insort_key:
  "map fst (insort_key (\<lambda>kv. f (fst kv)) x xs) = insort_key f (fst x) (map fst xs)"
  by (induction xs) auto

lemma map_fst_sort_key:
  "map fst (sort_key (\<lambda>kv. f (fst kv)) xs) = sort_key f (map fst xs)"
  by (induction xs) (auto simp: map_fst_insort_key)

lemma keys_own_entries:
  "map fst (own_entries obj) =
     sort_key nat_of_digits (filter is_array_index (map fst obj))
     @ filter (\<lambda>k. \<not> is_array_index k) (map fst obj)"
  by (simp add: own_entries_def map_fst_sort_key filter_map comp_def)

lemma fromEntries_subset: "set (fromEntries es) \<subseteq> set es"
proof
  fix kv assume kv: "kv \<in> set (fromEntries es)"
  obtain k v where e: "kv = (k, v)" by (cases kv)
  have "map_of (fromEntries es) k = Some v"
    using kv fromEntries_keys(1) [of es] unfolding e by simp
  then have "map_of (rev es) k = Some v"
    by (simp only: fromEntries_keys(3))
  then have "(k, v) \<in> set (rev es)"
    by (rule map_of_SomeD)
  then show "kv \<in> set es"
    unfolding e by simp
qed

lemma stringify_value_primitive:
  "v \<noteq> JUndefined \<Longrightarrow> \<not> is_object v \<Longrightarrow>
     \<exists>t. stringify_value v pre = [qs_encode pre @ ''='' @ qs_encode t]"
  by (cases v) auto

lemma length_concat_singletons:
  "\<forall>x \<in> set xs. length (f x) = 1 \<Longrightarrow> length (concat (map f xs)) = length xs"
  by (induction xs) auto

lemma one_pair_per_key:
  assumes "list_all (\<lambda>kv. snd kv \<noteq> JUndefined \<and> \<not> is_object (snd kv)) es"
  shows "length (concat (map (\<lambda>kv. stringify_value (snd kv) (fst kv))
           (own_entries (fromEntries es)))) = card (set (map fst es))"
proof -
  have "\<forall>kv \<in> set (own_entries (fromEntries es)).
      length (stringify_value (snd kv) (fst kv)) = 1"
  proof
    fix kv assume "kv \<in> set (own_entries (fromEntries es))"
    then have "kv \<in> set es"
      using fromEntries_subset [of es] by auto
    then have "snd kv \<noteq> JUndefined" and "\<not> is_object (snd kv)"
      using assms by (auto simp: list_all_iff)
    from stringify_value_primitive [OF this, of "fst kv"]
    show "length (stringify_value (snd kv) (fst kv)) = 1"
      by auto
  qed
  then have "length (concat (map (\<lambda>kv. stringify_value (snd kv) (fst kv))
           (own_entries (fromEntries es)))) = length (own_entries (fromEntries es))"
    by (rule length_concat_singletons)
  also have "\<dots> = length (map fst (own_entries (fromEntries es)))"
    by simp
  also have "\<dots> = card (set (map fst (own_entries (fromEntries es))))"
    using distinct_own_entries [OF fromEntries_keys(1), of es]
    by (simp only: distinct_card)
  also have "\<dots> = card (set (map fst es))"
    using fromEntries_keys(2) [of es] by simp
  finally show ?thesis .
qed

lemma searchParams_kept:
  assumes "Object_entries query = Inr qes" and "opt \<noteq> JUndefined" and "opt \<noteq> JNull"
    and "''searchParams'' \<notin> set (map fst (enumerable_entries opt))"
  shows "\<exists>cfg. build_cfg ua u query opt = Inr (JObj cfg)
     \<and> map_of cfg ''searchParams'' = Some (JStr (stringifyQuery (fromEntries
          (map (\<lambda>kv. (fst kv, JStr (snd kv))) (searchParams u) @ qes))))"
proof -
  have "map_of (rev (enumerable_entries opt)) ''searchParams'' = None"
    using assms(4) by (simp add: map_of_eq_None_iff)
  then show ?thesis
    unfolding build_cfg_shape [OF assms(1-3)]
    by (simp add: map_of_obj_put map_of_put_all map_add_def)
qed

lemma enrich_keeps:
  "err_name (enrich P err) = err_name err"
  "err_response (enrich P err) = err_response err"
  "prefix (err_message err) (err_message (enrich P err))"
  by (simp_all add: enrich_def Let_def split: option.splits sum.splits)

lemma enrich_appends:
  assumes "err_response err = Some r" and "res_headers r ''content-type'' = Some ct"
    and "ct \<noteq> []" and "parseContentType P ct = Some ''application/json''"
    and "res_json r = Inr body"
    and "truthy (get_prop body ''msg'')" and "ToString (get_prop body ''msg'') = Some m"
  shows "\<exists>sep. sep \<noteq> [] \<and> err_message (enrich P err) = err_message err @ sep @ m"
proof -
  have "body \<noteq> JNull" and "body \<noteq> JUndefined"
    using assms(6) by auto
  then have "err_message (enrich P err) = err_message err @ msg_separator @ m"
    using assms by (simp add: enrich_def Let_def)
  moreover have "msg_separator \<noteq> []"
    by (simp add: msg_separator_def)
  ultimately show ?thesis
    by blast
qed

lemma attach_metadata_object:
  "is_object body \<Longrightarrow>
     attach_metadata res body =
       Inr \<lparr>env_json = body,
            env_symbols =
              [(RESPONSE, \<lparr>d_value = AResponse res, d_writable = False,
                  d_enumerable = False, d_configurable = False\<rparr>),
               (HEADERS, \<lparr>d_value = AHeaders (res_headers res), d_writable = False,
                  d_enumerable = False, d_configurable = False\<rparr>),
               (SERVER_TIMING,
                \<lparr>d_value = AValue (or_null (res_headers res ''Server-Timing'')),
                  d_writable = False, d_enumerable = False, d_configurable = False\<rparr>),
               (CACHE, \<lparr>d_value = AValue (or_null (res_headers res ''X-Cache'')),
                  d_writable = False, d_enumerable = False, d_configurable = False\<rparr>)]\<rparr>"
  by (simp add: attach_metadata_def defineProperty_def)

lemma string_keyed_map:
  "string_keyed (map (\<lambda>kv. (KStr (fst kv), AValue (snd kv))) es) =
     map (\<lambda>kv. (fst kv, AValue (snd kv))) es"
  by (induction es) auto

section \<open>The merged query\<close>

text \<open>
  C1, as the code has it. When the options do not set \<^verbatim>\<open>searchParams\<close>, the query
  string handed to \<^verbatim>\<open>ky.get\<close> is the encoding of the object that \<^verbatim>\<open>Object.fromEntries\<close>
  builds from the URL's entries followed by the query's entries. That object has
  every key of either source once, with the value of the key's last entry. The
  encoder visits its keys with the array indices first, in ascending order, and then
  the other keys in the order of their first occurrence, and joins with \<^verbatim>\<open>&\<close> the pairs
  each key yields: none for an undefined value, exactly one \<^verbatim>\<open>key=value\<close> pair for a
  string, a number, a boolean or null (null with an empty value), and for a nested
  object the pairs of its properties under the key extended by a dot and the property
  name. So when every value is such a primitive the string has one pair per distinct
  key, and when the keys are distinct and none is an array index the string is the
  one that encodes every entry in concatenation order.
\<close>

theorem query_entries_merged_by_key:
  assumes "new_URL P path (Some endpoint) = Inr u"
    and "Object_entries (default_param query (JObj [])) = Inr qes"
    and "default_param opt (JObj []) \<noteq> JNull"
    and "''searchParams'' \<notin> set (map fst (enumerable_entries (default_param opt (JObj []))))"
    and "es = map (\<lambda>kv. (fst kv, JStr (snd kv))) (searchParams u) @ qes"
  shows "(\<exists>cfg. snd (request P endpoint ua path query opt w) = w @ [(href u, JObj cfg)]
       \<and> map_of cfg ''searchParams'' = Some (JStr (stringifyQuery (fromEntries es))))
     \<and> distinct (map fst (fromEntries es))
     \<and> set (map fst (fromEntries es)) = set (map fst es)
     \<and> map_of (fromEntries es) = map_of (rev es)
     \<and> stringifyQuery (fromEntries es) =
          join_with ''&'' (concat (map (\<lambda>kv. stringify_value (snd kv) (fst kv))
            (own_entries (fromEntries es))))
     \<and> map fst (own_entries (fromEntries es)) =
          sort_key nat_of_digits (filter is_array_index (rev (remdups (rev (map fst es)))))
          @ filter (\<lambda>k. \<not> is_array_index k) (rev (remdups (rev (map fst es))))
     \<and> sorted (map nat_of_digits
          (sort_key nat_of_digits (filter is_array_index (rev (remdups (rev (map fst es)))))))
     \<and> (list_all (\<lambda>kv. \<not> is_array_index (fst kv)) es \<longrightarrow>
          map fst (own_entries (fromEntries es)) = rev (remdups (rev (map fst es))))
     \<and> (list_all (\<lambda>kv. \<not> is_array_index (fst kv)) es \<and> distinct (map fst es) \<longrightarrow>
          stringifyQuery (fromEntries es) = concatenated_query u qes)
     \<and> stringify_value JUndefined pre = []
     \<and> stringify_value JNull pre = [qs_encode pre @ ''='']
     \<and> (v \<noteq> JUndefined \<and> \<not> is_object v \<longrightarrow>
          (\<exists>t. stringify_value v pre = [qs_encode pre @ ''='' @ qs_encode t]))
     \<and> (list_all (\<lambda>kv. snd kv \<noteq> JUndefined \<and> \<not> is_object (snd kv)) es \<longrightarrow>
          length (concat (map (\<lambda>kv. stringify_value (snd kv) (fst kv))
            (own_entries (fromEntries es)))) = card (set (map fst es)))
     \<and> stringify_value (JObj kvs) pre =
          concat (map (\<lambda>kv. stringify_value (snd kv) (pre @ ''.'' @ fst kv)) (own_entries kvs))"
proof -
  have nn: "default_param opt (JObj []) \<noteq> JUndefined"
    by (simp add: default_param_def)
  from searchParams_kept [OF assms(2) nn assms(3) assms(4), of ua u]
  obtain cfg where cfg: "build_cfg ua u (default_param query (JObj []))
        (default_param opt (JObj [])) = Inr (JObj cfg)"
    and sp: "map_of cfg ''searchParams'' = Some (JStr (stringifyQuery (fromEntries es)))"
    unfolding assms(5) by blast
  from request_sent [OF assms(1) cfg, of w]
  have sent: "snd (request P endpoint ua path query opt w) = w @ [(href u, JObj cfg)]"
    by simp
  have visited: "map fst (own_entries (fromEntries es)) =
      sort_key nat_of_digits (filter is_array_index (rev (remdups (rev (map fst es)))))
      @ filter (\<lambda>k. \<not> is_array_index k) (rev (remdups (rev (map fst es))))"
    by (simp only: keys_own_entries fromEntries_keys(4))
  have ascending: "sorted (map nat_of_digits
      (sort_key nat_of_digits (filter is_array_index (rev (remdups (rev (map fst es)))))))"
    by (rule sorted_sort_key)
  have order: "list_all (\<lambda>kv. \<not> is_array_index (fst kv)) es \<longrightarrow>
      map fst (own_entries (fromEntries es)) = rev (remdups (rev (map fst es)))"
    by (simp add: own_entries_fromEntries fromEntries_keys(4))
  have same: "list_all (\<lambda>kv. \<not> is_array_index (fst kv)) es \<and> distinct (map fst es) \<longrightarrow>
      stringifyQuery (fromEntries es) = concatenated_query u qes"
  proof
    assume a: "list_all (\<lambda>kv. \<not> is_array_index (fst kv)) es \<and> distinct (map fst es)"
    then have 1: "fromEntries es = es"
      by (simp add: fromEntries_def put_all_distinct_id)
    from a have 2: "own_entries (fromEntries es) = fromEntries es"
      using own_entries_fromEntries by blast
    from 1 2 have "own_entries (fromEntries es) = es"
      by simp
    then show "stringifyQuery (fromEntries es) = concatenated_query u qes"
      by (simp add: stringifyQuery_def concatenated_query_def assms(5))
  qed
  have joined: "stringifyQuery (fromEntries es) =
      join_with ''&'' (concat (map (\<lambda>kv. stringify_value (snd kv) (fst kv))
        (own_entries (fromEntries es))))"
    by (simp add: stringifyQuery_def)
  have one: "v \<noteq> JUndefined \<and> \<not> is_object v \<longrightarrow>
      (\<exists>t. stringify_value v pre = [qs_encode pre @ ''='' @ qs_encode t])"
    using stringify_value_primitive [of v pre] by blast
  have count: "list_all (\<lambda>kv. snd kv \<noteq> JUndefined \<and> \<not> is_object (snd kv)) es \<longrightarrow>
      length (concat (map (\<lambda>kv. stringify_value (snd kv) (fst kv))
        (own_entries (fromEntries es)))) = card (set (map fst es))"
    using one_pair_per_key [of es] by blast
  have prim: "stringify_value JUndefined pre = []"
    "stringify_value JNull pre = [qs_encode pre @ ''='']"
    by (simp_all add: qs_encode_def)
  have nested: "stringify_value (JObj kvs) pre =
      concat (map (\<lambda>kv. stringify_value (snd kv) (pre @ ''.'' @ fst kv)) (own_entries kvs))"
    by simp
  have merged: "(\<exists>cfg. snd (request P endpoint ua path query opt w) = w @ [(href u, JObj cfg)]
       \<and> map_of cfg ''searchParams'' = Some (JStr (stringifyQuery (fromEntries es))))"
    using sent sp by blast
  show ?thesis
    using merged fromEntries_keys(1-3) [of es] joined visited ascending order same prim one
      count nested
    by (intro conjI) assumption+
qed

theorem query_entries_merged_by_key_witness:
  "new_URL example_platform ''/locations?results=1'' (Some ''https://example.test'') =
     Inr \<lparr>href = ''https://example.test/locations?results=1'',
           searchParams = [(''results'', ''1'')]\<rparr>
   \<and> Object_entries (default_param
         (JObj [(''query'', JStr ''Alex''), (''a'', JObj [(''b'', JNum 1)])]) (JObj [])) =
       Inr [(''query'', JStr ''Alex''), (''a'', JObj [(''b'', JNum 1)])]
   \<and> list_all (\<lambda>kv. \<not> is_array_index (fst kv))
         [(''results'', JStr ''1''), (''query'', JStr ''Alex''), (''a'', JObj [(''b'', JNum 1)])]
   \<and> distinct (map fst
         [(''results'', JStr ''1''), (''query'', JStr ''Alex''), (''a'', JObj [(''b'', JNum 1)])])
   \<and> snd (request example_platform ''https://example.test'' (JStr ''hafas-rest-api-client'')
         ''/locations?results=1''
         (JObj [(''query'', JStr ''Alex''), (''a'', JObj [(''b'', JNum 1)])]) JUndefined []) =
       [(''https://example.test/locations?results=1'',
         JObj [(''mode'', JStr ''cors''), (''redirect'', JStr ''follow''),
               (''searchParams'', JStr ''results=1&query=Alex&a.b=1''),
               (''headers'', JObj [(''Accept'', JStr ''application/json''),
                  (''User-Agent'', JStr ''hafas-rest-api-client'')])])]
   \<and> concatenated_query
         \<lparr>href = ''https://example.test/locations?results=1'',
          searchParams = [(''results'', ''1'')]\<rparr>
         [(''query'', JStr ''Alex''), (''a'', JObj [(''b'', JNum 1)])] =
       ''results=1&query=Alex&a.b=1''
   \<and> Object_entries (default_param
         (JObj [(''b'', JStr ''x''), (''0'', JStr ''y'')]) (JObj [])) =
       Inr [(''0'', JStr ''y''), (''b'', JStr ''x'')]
   \<and> list_all (\<lambda>kv. snd kv \<noteq> JUndefined \<and> \<not> is_object (snd kv))
         [(''results'', JStr ''1''), (''0'', JStr ''y''), (''b'', JStr ''x'')]
   \<and> map fst (own_entries (fromEntries
         [(''results'', JStr ''1''), (''0'', JStr ''y''), (''b'', JStr ''x'')])) =
       [''0'', ''results'', ''b'']
   \<and> snd (request example_platform ''https://example.test'' (JStr ''hafas-rest-api-client'')
         ''/locations?results=1''
         (JObj [(''b'', JStr ''x''), (''0'', JStr ''y'')]) JUndefined []) =
       [(''https://example.test/locations?results=1'',
         JObj [(''mode'', JStr ''cors''), (''redirect'', JStr ''follow''),
               (''searchParams'', JStr ''0=y&results=1&b=x''),
               (''headers'', JObj [(''Accept'', JStr ''application/json''),
                  (''User-Agent'', JStr ''hafas-rest-api-client'')])])]
   \<and> card (set (map fst
         [(''results'', JStr ''1''), (''0'', JStr ''y''), (''b'', JStr ''x'')])) = 3
   \<and> stringifyQuery (fromEntries [(''lineName'', JUndefined)]) = ''''"
  using query_entries_merged_by_key [of example_platform "''/locations?results=1''"
      "''https://example.test''"
      "\<lparr>href = ''https://example.test/locations?results=1'',
        searchParams = [(''results'', ''1'')]\<rparr>"
      "JObj [(''query'', JStr ''Alex''), (''a'', JObj [(''b'', JNum 1)])]"
      "[(''query'', JStr ''Alex''), (''a'', JObj [(''b'', JNum 1)])]"
      JUndefined
      "[(''results'', JStr ''1''), (''query'', JStr ''Alex''), (''a'', JObj [(''b'', JNum 1)])]"
      "JStr ''hafas-rest-api-client''" "[]" "''a''" "JStr ''x''" "[(''b'', JNum 1)]"]
    query_entries_merged_by_key [of example_platform "''/locations?results=1''"
      "''https://example.test''"
      "\<lparr>href = ''https://example.test/locations?results=1'',
        searchParams = [(''results'', ''1'')]\<rparr>"
      "JObj [(''b'', JStr ''x''), (''0'', JStr ''y'')]"
      "[(''0'', JStr ''y''), (''b'', JStr ''x'')]"
      JUndefined
      "[(''results'', JStr ''1''), (''0'', JStr ''y''), (''b'', JStr ''x'')]"
      "JStr ''hafas-rest-api-client''" "[]" "''a''" "JStr ''x''" "[(''b'', JNum 1)]"]
  by (simp add: run_simps concatenated_query_def show_int_def show_nat.simps)

text \<open>
  C1 as stated fails where the path and the query share a key: for the path
  \<^verbatim>\<open>/locations?results=1\<close> and the query \<^verbatim>\<open>{results: 2}\<close> the string sent is
  \<^verbatim>\<open>results=2\<close>, not \<^verbatim>\<open>results=1&results=2\<close>.
\<close>

theorem query_entries_concatenated_counterexample:
  "snd (request example_platform ''https://example.test'' (JStr ''hafas-rest-api-client'')
      ''/locations?results=1'' (JObj [(''results'', JNum 2)]) JUndefined []) =
     [(''https://example.test/locations?results=1'',
       JObj [(''mode'', JStr ''cors''), (''redirect'', JStr ''follow''),
             (''searchParams'', JStr ''results=2''),
             (''headers'', JObj [(''Accept'', JStr ''application/json''),
                (''User-Agent'', JStr ''hafas-rest-api-client'')])])]
   \<and> concatenated_query
         \<lparr>href = ''https://example.test/locations?results=1'',
          searchParams = [(''results'', ''1'')]\<rparr>
         [(''results'', JNum 2)] = ''results=1&results=2''
   \<and> fromEntries [(''results'', JStr ''1''), (''results'', JNum 2)] = [(''results'', JNum 2)]
   \<and> stringifyQuery (fromEntries [(''results'', JStr ''1''), (''results'', JNum 2)]) \<noteq>
       concatenated_query
         \<lparr>href = ''https://example.test/locations?results=1'',
          searchParams = [(''results'', ''1'')]\<rparr>
         [(''results'', JNum 2)]"
  by (simp add: run_simps concatenated_query_def show_int_def show_nat.simps)

section \<open>Failed requests\<close>

text \<open>
  C2, as the code has it. When \<^verbatim>\<open>ky.get\<close> rejects, the request rejects with that error
  after enrichment, with its name and response unchanged and its message extended at
  most at the end. If the response has a non-empty \<^verbatim>\<open>content-type\<close> whose media type
  is \<^verbatim>\<open>application/json\<close> and its body parses, the error carries the parsed body; if
  moreover \<^verbatim>\<open>msg\<close> of the body is truthy and has a string form, the message is the
  original message, a separator and that string, and if \<^verbatim>\<open>msg\<close> is falsy or missing
  the message is unchanged. With
  another media type, a header or body that does not parse, no header or no response,
  the error is raised as it was.
\<close>

theorem failure_is_enriched_and_raised:
  assumes "new_URL P path (Some endpoint) = Inr u"
    and "build_cfg ua u (default_param query (JObj [])) (default_param opt (JObj [])) = Inr cfg"
    and "ky_get P (href u) cfg = Rejected err"
  shows "request P endpoint ua path query opt w = (Inl (enrich P err), w @ [(href u, cfg)])
     \<and> err_name (enrich P err) = err_name err
     \<and> err_response (enrich P err) = err_response err
     \<and> prefix (err_message err) (err_message (enrich P err))
     \<and> (err_response err = Some r \<and> res_headers r ''content-type'' = Some ct \<and> ct \<noteq> []
          \<and> parseContentType P ct = Some ''application/json'' \<and> res_json r = Inr body \<longrightarrow>
          err_body (enrich P err) = Some body
          \<and> (truthy (get_prop body ''msg'') \<and> ToString (get_prop body ''msg'') = Some m \<longrightarrow>
               (\<exists>sep. sep \<noteq> [] \<and>
                  err_message (enrich P err) = err_message err @ sep @ m))
          \<and> (\<not> truthy (get_prop body ''msg'') \<longrightarrow>
               err_message (enrich P err) = err_message err))
     \<and> (err_response err = Some r \<and> res_headers r ''content-type'' = Some ct
          \<and> parseContentType P ct = Some ty \<and> ty \<noteq> ''application/json'' \<longrightarrow>
          enrich P err = err)
     \<and> (err_response err = Some r \<and> res_headers r ''content-type'' = Some ct
          \<and> parseContentType P ct = None \<longrightarrow> enrich P err = err)
     \<and> (err_response err = Some r \<and> res_json r = Inl x \<longrightarrow> enrich P err = err)
     \<and> (err_response err = None \<longrightarrow> enrich P err = err)
     \<and> (err_response err = Some r \<and> res_headers r ''content-type'' = None \<longrightarrow>
          enrich P err = err)"
proof -
  have raised: "request P endpoint ua path query opt w =
      (Inl (enrich P err), w @ [(href u, cfg)])"
    using request_sent [OF assms(1,2), of w] assms(3) by simp
  have json: "err_response err = Some r \<and> res_headers r ''content-type'' = Some ct \<and> ct \<noteq> []
          \<and> parseContentType P ct = Some ''application/json'' \<and> res_json r = Inr body \<longrightarrow>
          err_body (enrich P err) = Some body
          \<and> (truthy (get_prop body ''msg'') \<and> ToString (get_prop body ''msg'') = Some m \<longrightarrow>
               (\<exists>sep. sep \<noteq> [] \<and>
                  err_message (enrich P err) = err_message err @ sep @ m))
          \<and> (\<not> truthy (get_prop body ''msg'') \<longrightarrow>
               err_message (enrich P err) = err_message err)"
  proof (intro impI conjI)
    assume a: "err_response err = Some r \<and> res_headers r ''content-type'' = Some ct \<and> ct \<noteq> []
          \<and> parseContentType P ct = Some ''application/json'' \<and> res_json r = Inr body"
    then show "err_body (enrich P err) = Some body"
      by (simp add: enrich_def Let_def split: option.splits)
    from a show "\<not> truthy (get_prop body ''msg'') \<Longrightarrow>
        err_message (enrich P err) = err_message err"
      by (simp add: enrich_def Let_def)
    assume "truthy (get_prop body ''msg'') \<and> ToString (get_prop body ''msg'') = Some m"
    with a show "\<exists>sep. sep \<noteq> [] \<and> err_message (enrich P err) = err_message err @ sep @ m"
      using enrich_appends [of err r ct P body m] by blast
  qed
  have other: "err_response err = Some r \<and> res_headers r ''content-type'' = Some ct
          \<and> parseContentType P ct = Some ty \<and> ty \<noteq> ''application/json'' \<longrightarrow>
          enrich P err = err"
    "err_response err = Some r \<and> res_headers r ''content-type'' = Some ct
          \<and> parseContentType P ct = None \<longrightarrow> enrich P err = err"
    "err_response err = Some r \<and> res_json r = Inl x \<longrightarrow> enrich P err = err"
    "err_response err = None \<longrightarrow> enrich P err = err"
    "err_response err = Some r \<and> res_headers r ''content-type'' = None \<longrightarrow>
          enrich P err = err"
    by (auto simp: enrich_def Let_def split: option.splits)
  show ?thesis
    using raised json other enrich_keeps [where P = P and err = err] by blast
qed

theorem failure_is_enriched_and_raised_witness:
  "new_URL example_platform ''/stops/404'' (Some ''https://example.test'') =
     Inr \<lparr>href = ''https://example.test/stops/404'', searchParams = []\<rparr>
   \<and> build_cfg (JStr ''hafas-rest-api-client'')
         \<lparr>href = ''https://example.test/stops/404'', searchParams = []\<rparr>
         (default_param JUndefined (JObj [])) (default_param JUndefined (JObj [])) =
       Inr (JObj [(''mode'', JStr ''cors''), (''redirect'', JStr ''follow''),
                  (''searchParams'', JStr ''''),
                  (''headers'', JObj [(''Accept'', JStr ''application/json''),
                     (''User-Agent'', JStr ''hafas-rest-api-client'')])])
   \<and> err_response example_HTTPError = Some example_failure
   \<and> res_headers example_failure ''content-type'' = Some ''application/json''
   \<and> parseContentType example_platform ''application/json'' = Some ''application/json''
   \<and> res_json example_failure = Inr (JObj [(''msg'', JStr ''not found'')])
   \<and> truthy (get_prop (JObj [(''msg'', JStr ''not found'')]) ''msg'')
   \<and> request example_platform ''https://example.test'' (JStr ''hafas-rest-api-client'')
         ''/stops/404'' JUndefined JUndefined [] =
       (Inl (example_HTTPError
          \<lparr>err_message := ''Request failed with status code 500 Internal Server Error''
              @ msg_separator @ ''not found'',
           err_body := Some (JObj [(''msg'', JStr ''not found'')])\<rparr>),
        [(''https://example.test/stops/404'',
          JObj [(''mode'', JStr ''cors''), (''redirect'', JStr ''follow''),
                (''searchParams'', JStr ''''),
                (''headers'', JObj [(''Accept'', JStr ''application/json''),
                   (''User-Agent'', JStr ''hafas-rest-api-client'')])])])"
  using failure_is_enriched_and_raised [where P = example_platform and path = "''/stops/404''"
      and endpoint = "''https://example.test''"
      and u = "\<lparr>href = ''https://example.test/stops/404'', searchParams = []\<rparr>"
      and ua = "JStr ''hafas-rest-api-client''" and query = JUndefined and opt = JUndefined
      and cfg = "JObj [(''mode'', JStr ''cors''), (''redirect'', JStr ''follow''),
                  (''searchParams'', JStr ''''),
                  (''headers'', JObj [(''Accept'', JStr ''application/json''),
                     (''User-Agent'', JStr ''hafas-rest-api-client'')])]"
      and err = example_HTTPError and w = "[]" and r = example_failure
      and ct = "''application/json''" and body = "JObj [(''msg'', JStr ''not found'')]"
      and m = "''not found''" and ty = "''text/html''"
      and x = "(''SyntaxError'', ''Unexpected token'')"]
  by (simp add: run_simps)

text \<open>
  C2 as stated fails for a body whose \<^verbatim>\<open>msg\<close> is falsy: with the JSON body
  \<^verbatim>\<open>{"msg":""}\<close> the error carries the body, but its message is unchanged and does
  not end with the separator.
\<close>

theorem failure_message_counterexample:
  "request
     (example_platform
        \<lparr>ky_get := rejecting_with (example_HTTPError\<lparr>err_response := Some example_empty_msg\<rparr>)\<rparr>)
     ''https://example.test'' (JStr ''hafas-rest-api-client'') ''/stops/404''
     JUndefined JUndefined [] =
   (Inl (example_HTTPError
      \<lparr>err_response := Some example_empty_msg,
       err_body := Some (JObj [(''msg'', JStr '''')])\<rparr>),
    [(''https://example.test/stops/404'',
      JObj [(''mode'', JStr ''cors''), (''redirect'', JStr ''follow''),
            (''searchParams'', JStr ''''),
            (''headers'', JObj [(''Accept'', JStr ''application/json''),
               (''User-Agent'', JStr ''hafas-rest-api-client'')])])])
   \<and> res_headers example_empty_msg ''content-type'' = Some ''application/json''
   \<and> res_json example_empty_msg = Inr (JObj [(''msg'', JStr '''')])
   \<and> map_of [(''msg'', JStr '''')] ''msg'' = Some (JStr '''')
   \<and> err_message example_HTTPError =
       ''Request failed with status code 500 Internal Server Error''
   \<and> \<not> suffix (en_dash_separator @ '''')
         ''Request failed with status code 500 Internal Server Error''"
  by (simp add: run_simps rejecting_with_def example_empty_msg_def en_dash_separator_def
      suffix_to_prefix)

text \<open>
  With the body \<^verbatim>\<open>{"msg":"not found"}\<close> the message is extended by the separator of
  line 71 and the text; the result does not end with an en dash followed by the text.
\<close>

lemma line_71_separator_example:
  "err_message (enrich example_platform example_HTTPError) =
     ''Request failed with status code 500 Internal Server Error'' @ msg_separator
       @ ''not found''
   \<and> \<not> suffix (en_dash_separator @ ''not found'')
         (err_message (enrich example_platform example_HTTPError))"
  by (simp add: run_simps en_dash_separator_def msg_separator_def suffix_to_prefix)

section \<open>Successful requests\<close>

text \<open>
  C3, as the code has it. When \<^verbatim>\<open>ky.get\<close> resolves and the body parses to an object or
  an array, the request returns that body; the four symbols read the response, its
  headers, and the \<^verbatim>\<open>Server-Timing\<close> and \<^verbatim>\<open>X-Cache\<close> header values (null when the
  header is missing or empty); and the own enumerable properties of the returned
  value, hence its keys, are those of the body.
\<close>

theorem success_returns_body_with_hidden_metadata:
  assumes "new_URL P path (Some endpoint) = Inr u"
    and "build_cfg ua u (default_param query (JObj [])) (default_param opt (JObj [])) = Inr cfg"
    and "ky_get P (href u) cfg = Resolved res"
    and "res_json res = Inr body"
    and "is_object body"
  shows "\<exists>env. request P endpoint ua path query opt w = (Inr env, w @ [(href u, cfg)])
     \<and> env_json env = body
     \<and> get_symbol env RESPONSE = Some (AResponse res)
     \<and> get_symbol env HEADERS = Some (AHeaders (res_headers res))
     \<and> get_symbol env SERVER_TIMING =
         Some (AValue (case res_headers res ''Server-Timing'' of
            None \<Rightarrow> JNull | Some v \<Rightarrow> if v = [] then JNull else JStr v))
     \<and> get_symbol env CACHE =
         Some (AValue (case res_headers res ''X-Cache'' of
            None \<Rightarrow> JNull | Some v \<Rightarrow> if v = [] then JNull else JStr v))
     \<and> enumerable_own env =
         map (\<lambda>kv. (KStr (fst kv), AValue (snd kv))) (enumerable_entries body)
     \<and> Object_keys env = map fst (enumerable_entries body)"
proof -
  let ?env = "\<lparr>env_json = body,
            env_symbols =
              [(RESPONSE, \<lparr>d_value = AResponse res, d_writable = False,
                  d_enumerable = False, d_configurable = False\<rparr>),
               (HEADERS, \<lparr>d_value = AHeaders (res_headers res), d_writable = False,
                  d_enumerable = False, d_configurable = False\<rparr>),
               (SERVER_TIMING,
                \<lparr>d_value = AValue (or_null (res_headers res ''Server-Timing'')),
                  d_writable = False, d_enumerable = False, d_configurable = False\<rparr>),
               (CACHE, \<lparr>d_value = AValue (or_null (res_headers res ''X-Cache'')),
                  d_writable = False, d_enumerable = False, d_configurable = False\<rparr>)]\<rparr>"
  have 1: "request P endpoint ua path query opt w = (Inr ?env, w @ [(href u, cfg)])"
    using request_sent [OF assms(1,2), of w] assms(3,4) attach_metadata_object [OF assms(5)]
    by simp
  have 2: "get_symbol ?env RESPONSE = Some (AResponse res)"
    "get_symbol ?env HEADERS = Some (AHeaders (res_headers res))"
    "get_symbol ?env SERVER_TIMING =
         Some (AValue (case res_headers res ''Server-Timing'' of
            None \<Rightarrow> JNull | Some v \<Rightarrow> if v = [] then JNull else JStr v))"
    "get_symbol ?env CACHE =
         Some (AValue (case res_headers res ''X-Cache'' of
            None \<Rightarrow> JNull | Some v \<Rightarrow> if v = [] then JNull else JStr v))"
    by (simp_all add: get_symbol_def or_null_def)
  have 3: "enumerable_own ?env =
      map (\<lambda>kv. (KStr (fst kv), AValue (snd kv))) (enumerable_entries body)"
    by (simp add: enumerable_own_def)
  have 4: "Object_keys ?env = map fst (enumerable_entries body)"
    unfolding Object_keys_def 3 string_keyed_map by (simp add: comp_def)
  have 5: "env_json ?env = body" by simp
  show ?thesis
    using 1 2 3 4 5 by blast
qed

theorem success_returns_body_with_hidden_metadata_witness:
  "new_URL example_platform ''/stops/900000003201'' (Some ''https://example.test'') =
     Inr \<lparr>href = ''https://example.test/stops/900000003201'', searchParams = []\<rparr>
   \<and> build_cfg (JStr ''hafas-rest-api-client'')
       \<lparr>href = ''https://example.test/stops/900000003201'', searchParams = []\<rparr>
       (default_param JUndefined (JObj [])) (default_param JUndefined (JObj [])) =
     Inr (JObj [(''mode'', JStr ''cors''), (''redirect'', JStr ''follow''),
                (''searchParams'', JStr ''''),
                (''headers'', JObj [(''Accept'', JStr ''application/json''),
                   (''User-Agent'', JStr ''hafas-rest-api-client'')])])
   \<and> ky_get example_platform ''https://example.test/stops/900000003201''
         (JObj [(''mode'', JStr ''cors''), (''redirect'', JStr ''follow''),
                (''searchParams'', JStr ''''),
                (''headers'', JObj [(''Accept'', JStr ''application/json''),
                   (''User-Agent'', JStr ''hafas-rest-api-client'')])]) = Resolved example_ok
   \<and> res_json example_ok = Inr example_body
   \<and> is_object example_body
   \<and> invoke (client_of
         (request example_platform ''https://example.test'' (JStr ''hafas-rest-api-client'')))
         (Stop (JStr ''900000003201'') JUndefined) [] =
       (Inr \<lparr>env_json = JObj [(''id'', JStr ''900000003201''), (''name'', JStr ''X'')],
             env_symbols =
               [(RESPONSE, \<lparr>d_value = AResponse example_ok, d_writable = False,
                   d_enumerable = False, d_configurable = False\<rparr>),
                (HEADERS, \<lparr>d_value = AHeaders (res_headers example_ok), d_writable = False,
                   d_enumerable = False, d_configurable = False\<rparr>),
                (SERVER_TIMING, \<lparr>d_value = AValue JNull, d_writable = False,
                   d_enumerable = False, d_configurable = False\<rparr>),
                (CACHE, \<lparr>d_value = AValue (JStr ''HIT''), d_writable = False,
                   d_enumerable = False, d_configurable = False\<rparr>)]\<rparr>,
        [(''https://example.test/stops/900000003201'',
          JObj [(''mode'', JStr ''cors''), (''redirect'', JStr ''follow''),
                (''searchParams'', JStr ''''),
                (''headers'', JObj [(''Accept'', JStr ''application/json''),
                   (''User-Agent'', JStr ''hafas-rest-api-client'')])])])
   \<and> get_symbol
         \<lparr>env_json = JObj [(''id'', JStr ''900000003201''), (''name'', JStr ''X'')],
          env_symbols =
            [(RESPONSE, \<lparr>d_value = AResponse example_ok, d_writable = False,
                d_enumerable = False, d_configurable = False\<rparr>),
             (HEADERS, \<lparr>d_value = AHeaders (res_headers example_ok), d_writable = False,
                d_enumerable = False, d_configurable = False\<rparr>),
             (SERVER_TIMING, \<lparr>d_value = AValue JNull, d_writable = False,
                d_enumerable = False, d_configurable = False\<rparr>),
             (CACHE, \<lparr>d_value = AValue (JStr ''HIT''), d_writable = False,
                d_enumerable = False, d_configurable = False\<rparr>)]\<rparr> CACHE =
       Some (AValue (JStr ''HIT''))
   \<and> Object_keys
         \<lparr>env_json = JObj [(''id'', JStr ''900000003201''), (''name'', JStr ''X'')],
          env_symbols =
            [(RESPONSE, \<lparr>d_value = AResponse example_ok, d_writable = False,
                d_enumerable = False, d_configurable = False\<rparr>),
             (HEADERS, \<lparr>d_value = AHeaders (res_headers example_ok), d_writable = False,
                d_enumerable = False, d_configurable = False\<rparr>),
             (SERVER_TIMING, \<lparr>d_value = AValue JNull, d_writable = False,
                d_enumerable = False, d_configurable = False\<rparr>),
             (CACHE, \<lparr>d_value = AValue (JStr ''HIT''), d_writable = False,
                d_enumerable = False, d_configurable = False\<rparr>)]\<rparr> =
       [''id'', ''name'']"
proof -
  have hyps: "new_URL example_platform ''/stops/900000003201'' (Some ''https://example.test'') =
     Inr \<lparr>href = ''https://example.test/stops/900000003201'', searchParams = []\<rparr>"
    "build_cfg (JStr ''hafas-rest-api-client'')
       \<lparr>href = ''https://example.test/stops/900000003201'', searchParams = []\<rparr>
       (default_param JUndefined (JObj [])) (default_param JUndefined (JObj [])) =
     Inr (JObj [(''mode'', JStr ''cors''), (''redirect'', JStr ''follow''),
                (''searchParams'', JStr ''''),
                (''headers'', JObj [(''Accept'', JStr ''application/json''),
                   (''User-Agent'', JStr ''hafas-rest-api-client'')])])"
    "ky_get example_platform
       (href \<lparr>href = ''https://example.test/stops/900000003201'', searchParams = []\<rparr>)
         (JObj [(''mode'', JStr ''cors''), (''redirect'', JStr ''follow''),
                (''searchParams'', JStr ''''),
                (''headers'', JObj [(''Accept'', JStr ''application/json''),
                   (''User-Agent'', JStr ''hafas-rest-api-client'')])]) = Resolved example_ok"
    "res_json example_ok = Inr example_body"
    "is_object example_body"
    by (simp_all add: run_simps)
  from success_returns_body_with_hidden_metadata [OF hyps, of "[]"] hyps
  show ?thesis
    by (simp add: run_simps get_symbol_def Object_keys_def enumerable_own_def)
qed

text \<open>
  C3 as stated fails for a JSON body that is not an object: with the body \<^verbatim>\<open>null\<close>
  the request rejects with the type error of \<^verbatim>\<open>Object.defineProperty\<close>.
\<close>

theorem primitive_body_counterexample:
  "request (example_platform\<lparr>ky_get := resolving_with example_null_body\<rparr>)
     ''https://example.test'' (JStr ''hafas-rest-api-client'') ''/stops/900000003201''
     JUndefined JUndefined [] =
   (Inl (TypeError ''Object.defineProperty called on non-object''),
    [(''https://example.test/stops/900000003201'',
      JObj [(''mode'', JStr ''cors''), (''redirect'', JStr ''follow''),
            (''searchParams'', JStr ''''),
            (''headers'', JObj [(''Accept'', JStr ''application/json''),
               (''User-Agent'', JStr ''hafas-rest-api-client'')])])])
   \<and> res_status example_null_body = 200
   \<and> res_json example_null_body = Inr JNull"
  by (simp add: run_simps resolving_with_def example_null_body_def)

end
